theory Spec2Isabelle
  imports Main "HOL-Library.Sublist" "HOL-Library.Char_ord" "HOL-Library.List_Lexorder"
begin

section \<open>Go-EuroMillions-API: the updater and the read service\<close>

text \<open>
  A shallow embedding of \<^verbatim>\<open>go-euromillions-api-update.go\<close> (the updater: \<^verbatim>\<open>getBetween\<close>,
  \<^verbatim>\<open>runUpdate\<close>, \<^verbatim>\<open>main\<close>) and of \<^verbatim>\<open>go-euromillions-api.go\<close> (the read service:
  \<^verbatim>\<open>resultsHandler\<close>, \<^verbatim>\<open>getAllResults\<close>, \<^verbatim>\<open>dateHandler\<close>, \<^verbatim>\<open>sendResponse\<close>).

  Go strings are byte strings: \<^typ>\<open>string\<close>. The comparison operators of Go on strings
  are bytewise lexicographic, which is the order of \<^typ>\<open>char list\<close> used here
  (a proper prefix is smaller).
\<close>

subsection \<open>Standard library: package strings\<close>

text \<open>\<^verbatim>\<open>strings.Index(s, sub)\<close>: the index of the first occurrence, \<open>None\<close> for -1.\<close>

fun Index :: "string \<Rightarrow> string \<Rightarrow> nat option" where
  "Index [] sub = (if sub = [] then Some 0 else None)"
| "Index (c # cs) sub =
     (if prefix sub (c # cs) then Some 0 else map_option Suc (Index cs sub))"

text \<open>\<^verbatim>\<open>getBetween\<close> of the updater.\<close>

definition getBetween :: "string \<Rightarrow> string \<Rightarrow> string \<Rightarrow> string" where
  "getBetween s start end' =
     (case Index s start of
        None \<Rightarrow> []
      | Some i \<Rightarrow>
          (let initialPos = i + length start in
           case Index (drop initialPos s) end' of
             None \<Rightarrow> []
           | Some endPos \<Rightarrow> take endPos (drop initialPos s)))"

subsection \<open>Standard library: the regular expressions of the updater\<close>

definition isDigit :: "char \<Rightarrow> bool" where
  "isDigit c \<longleftrightarrow> CHR ''0'' \<le> c \<and> c \<le> CHR ''9''"

definition digitVal :: "char \<Rightarrow> nat" where
  "digitVal c = of_char c - 48"

text \<open>The class \<^verbatim>\<open>\s\<close> of Go's regexp: tab, newline, form feed, carriage return, space.\<close>

definition isSpace :: "char \<Rightarrow> bool" where
  "isSpace c \<longleftrightarrow> c \<in> {CHR 0x09, CHR 0x0A, CHR 0x0C, CHR 0x0D, CHR '' ''}"

text \<open>
  \<^verbatim>\<open>regexp.MustCompile(`>(\d+)<`).FindAllStringSubmatch(s, -1)\<close>, projected to capture
  group 1 as the loops \<^verbatim>\<open>numbers = append(numbers, match[1])\<close> do. A match starts at a
  \<^verbatim>\<open>>\<close>, takes the whole run of digits after it and needs a \<^verbatim>\<open><\<close> right
  after the run; the search goes on after the \<^verbatim>\<open><\<close> of a match, and at the next
  character otherwise.
\<close>

function findDigitRuns :: "string \<Rightarrow> string list" where
  "findDigitRuns [] = []"
| "findDigitRuns (c # cs) =
     (if c = CHR ''>'' \<and> takeWhile isDigit cs \<noteq> []
         \<and> dropWhile isDigit cs \<noteq> [] \<and> hd (dropWhile isDigit cs) = CHR ''<''
      then takeWhile isDigit cs # findDigitRuns (tl (dropWhile isDigit cs))
      else findDigitRuns cs)"
  by pat_completeness auto
termination
proof (relation "measure length")
  fix c :: char and cs :: string
  have "length (tl (dropWhile isDigit cs)) \<le> length cs"
    using length_dropWhile_le [of isDigit cs] by simp
  then show "(tl (dropWhile isDigit cs), c # cs) \<in> measure length"
    by simp
qed simp_all

text \<open>The leftmost position at which an anchored matcher succeeds.\<close>

fun findFirst :: "(string \<Rightarrow> 'a option) \<Rightarrow> string \<Rightarrow> 'a option" where
  "findFirst m [] = m []"
| "findFirst m (c # cs) = (case m (c # cs) of Some r \<Rightarrow> Some r | None \<Rightarrow> findFirst m cs)"

text \<open>A literal at the start of the text: the rest after it.\<close>

definition lit :: "string \<Rightarrow> string \<Rightarrow> string option" where
  "lit p s = (if prefix p s then Some (drop (length p) s) else None)"

text \<open>\<^verbatim>\<open>\d{2}SEP\d{2}SEP\d{4}\<close> at the start of the text: the ten characters and the rest.\<close>

definition matchDate :: "char \<Rightarrow> string \<Rightarrow> (string \<times> string) option" where
  "matchDate sep s =
     (case s of
        d1 # d2 # s1 # m1 # m2 # s2 # y1 # y2 # y3 # y4 # rest \<Rightarrow>
          (if isDigit d1 \<and> isDigit d2 \<and> s1 = sep \<and> isDigit m1 \<and> isDigit m2 \<and> s2 = sep
              \<and> isDigit y1 \<and> isDigit y2 \<and> isDigit y3 \<and> isDigit y4
           then Some (take 10 s, rest) else None)
      | _ \<Rightarrow> None)"

text \<open>\<^verbatim>\<open>Data do Sorteio - (\d{2}\/\d{2}\/\d{4})\<close>, \<^verbatim>\<open>FindStringSubmatch\<close>, group 1.\<close>

definition dateRegex3 :: "string \<Rightarrow> string option" where
  "dateRegex3 =
     findFirst (\<lambda>s. case lit ''Data do Sorteio - '' s of
                       None \<Rightarrow> None
                     | Some r \<Rightarrow> map_option fst (matchDate CHR ''/'' r))"

text \<open>\<^verbatim>\<open><span>(\d{2}\.\d{2}\.\d{4})</span>\<close>, \<^verbatim>\<open>FindStringSubmatch\<close>, group 1.\<close>

definition dateRegex4 :: "string \<Rightarrow> string option" where
  "dateRegex4 =
     findFirst (\<lambda>s. case lit ''<span>'' s of
                       None \<Rightarrow> None
                     | Some r \<Rightarrow>
                         (case matchDate CHR ''.'' r of
                            None \<Rightarrow> None
                          | Some (d, r') \<Rightarrow> (if prefix ''</span>'' r' then Some d else None)))"

text \<open>
  \<^verbatim>\<open>(\d{1,2})\<close> followed by \<^verbatim>\<open>\s+\<close>: one or two digits, and the character after
  them is not a digit (a run of three digits or more cannot be followed by white space
  after one or two of them).
\<close>

definition num12 :: "string \<Rightarrow> (string \<times> string) option" where
  "num12 s =
     (let ds = takeWhile isDigit s in
      if 1 \<le> length ds \<and> length ds \<le> 2 then Some (ds, dropWhile isDigit s) else None)"

text \<open>\<^verbatim>\<open>\s+\<close>, greedy, before a character that is no white space.\<close>

definition spaces1 :: "string \<Rightarrow> string option" where
  "spaces1 s = (if takeWhile isSpace s = [] then None else Some (dropWhile isSpace s))"

text \<open>A final \<^verbatim>\<open>(\d{1,2})\<close>: greedy, at most two digits of the run.\<close>

definition lastNum12 :: "string \<Rightarrow> string option" where
  "lastNum12 s = (let ds = takeWhile isDigit s in if ds = [] then None else Some (take 2 ds))"

definition numThenSpaces :: "string \<Rightarrow> (string \<times> string) option" where
  "numThenSpaces s =
     (case num12 s of
        None \<Rightarrow> None
      | Some (n, r) \<Rightarrow> (case spaces1 r of None \<Rightarrow> None | Some r' \<Rightarrow> Some (n, r')))"

text \<open>
  The number pattern of site 3, anchored:
  \<^verbatim>\<open><li>(\d{1,2})\s+(\d{1,2})\s+(\d{1,2})\s+(\d{1,2})\s+(\d{1,2})\s+\+\s+(\d{1,2})\s+(\d{1,2})\<close>.
  The result is the seven capture groups.
\<close>

definition numMatch3 :: "string \<Rightarrow> string list option" where
  "numMatch3 s =
     Option.bind (lit ''<li>'' s) (\<lambda>r0.
     Option.bind (numThenSpaces r0) (\<lambda>(n1, r1).
     Option.bind (numThenSpaces r1) (\<lambda>(n2, r2).
     Option.bind (numThenSpaces r2) (\<lambda>(n3, r3).
     Option.bind (numThenSpaces r3) (\<lambda>(n4, r4).
     Option.bind (numThenSpaces r4) (\<lambda>(n5, r5).
     Option.bind (lit ''+'' r5) (\<lambda>r6.
     Option.bind (spaces1 r6) (\<lambda>r7.
     Option.bind (numThenSpaces r7) (\<lambda>(s1, r8).
     Option.bind (lastNum12 r8) (\<lambda>s2.
       Some [n1, n2, n3, n4, n5, s1, s2]))))))))))"

text \<open>\<^verbatim>\<open>numRegex.FindAllStringSubmatch(response, -1)\<close>: only its first match is read.\<close>

definition numRegex3 :: "string \<Rightarrow> string list option" where
  "numRegex3 = findFirst numMatch3"

subsection \<open>Standard library: package time\<close>

text \<open>
  The updater and the read service use \<^verbatim>\<open>time.Parse\<close> with five layouts and
  \<^verbatim>\<open>Time.Format\<close> with one. A parsed time is a calendar date (year, month, day);
  the layouts carry no clock and no zone.
\<close>

type_synonym date = "nat \<times> nat \<times> nat"

definition isLeap :: "nat \<Rightarrow> bool" where
  "isLeap year \<longleftrightarrow> year mod 4 = 0 \<and> (year mod 100 \<noteq> 0 \<or> year mod 400 = 0)"

definition daysIn :: "nat \<Rightarrow> nat \<Rightarrow> nat" where
  "daysIn m year =
     (if m = 2 \<and> isLeap year then 29
      else [31, 28, 31, 30, 31, 30, 31, 31, 30, 31, 30, 31] ! (m - 1))"

text \<open>\<^verbatim>\<open>getnum(s, true)\<close>: exactly two digits.\<close>

fun getnum :: "string \<Rightarrow> (nat \<times> string) option" where
  "getnum (a # b # rest) =
     (if isDigit a \<and> isDigit b then Some (digitVal a * 10 + digitVal b, rest) else None)"
| "getnum _ = None"

text \<open>The layout element \<^verbatim>\<open>2006\<close>: exactly four digits.\<close>

fun longYear :: "string \<Rightarrow> (nat \<times> string) option" where
  "longYear (a # b # c # d # rest) =
     (if isDigit a \<and> isDigit b \<and> isDigit c \<and> isDigit d
      then Some (digitVal a * 1000 + digitVal b * 100 + digitVal c * 10 + digitVal d, rest)
      else None)"
| "longYear _ = None"

text \<open>
  \<^verbatim>\<open>match\<close> of package time: equality of two bytes up to the case of ASCII letters
  (both bytes get bit 5 set and must then be the same lower-case letter).
\<close>

definition setBit5 :: "nat \<Rightarrow> nat" where
  "setBit5 n = (if (n div 32) mod 2 = 0 then n + 32 else n)"

definition matchChar :: "char \<Rightarrow> char \<Rightarrow> bool" where
  "matchChar c1 c2 \<longleftrightarrow>
     c1 = c2 \<or>
     (setBit5 (of_char c1) = setBit5 (of_char c2)
      \<and> 97 \<le> setBit5 (of_char c1) \<and> setBit5 (of_char c1) \<le> 122)"

definition shortMonthNames :: "string list" where
  "shortMonthNames =
     [''Jan'', ''Feb'', ''Mar'', ''Apr'', ''May'', ''Jun'',
      ''Jul'', ''Aug'', ''Sep'', ''Oct'', ''Nov'', ''Dec'']"

text \<open>\<^verbatim>\<open>lookup(tab, val)\<close>: the index of the first name that starts \<open>val\<close>, and the rest.\<close>

fun lookup :: "string list \<Rightarrow> string \<Rightarrow> (nat \<times> string) option" where
  "lookup [] val = None"
| "lookup (v # tab) val =
     (if length v \<le> length val \<and> list_all2 matchChar (take (length v) val) v
      then Some (0, drop (length v) val)
      else map_option (\<lambda>(i, r). (Suc i, r)) (lookup tab val))"

text \<open>The check at the end of \<^verbatim>\<open>time.Parse\<close>: no text left, the day exists in the month.\<close>

definition finishDate :: "nat \<Rightarrow> nat \<Rightarrow> nat \<Rightarrow> string \<Rightarrow> date option" where
  "finishDate year month day rest =
     (if rest \<noteq> [] then None
      else if day < 1 \<or> daysIn month year < day then None
      else Some (year, month, day))"

text \<open>
  \<^verbatim>\<open>time.Parse\<close> with the layouts \<^verbatim>\<open>02.01.2006\<close>, \<^verbatim>\<open>02-01-2006\<close> and
  \<^verbatim>\<open>02/01/2006\<close> (the separator is the parameter). \<open>None\<close> is any parse error.
\<close>

definition parseDMY :: "char \<Rightarrow> string \<Rightarrow> date option" where
  "parseDMY sep v =
     Option.bind (getnum v) (\<lambda>(day, v1).
     Option.bind (lit [sep] v1) (\<lambda>v2.
     Option.bind (getnum v2) (\<lambda>(month, v3).
       if month = 0 \<or> 12 < month then None else
     Option.bind (lit [sep] v3) (\<lambda>v4.
     Option.bind (longYear v4) (\<lambda>(year, v5).
       finishDate year month day v5)))))"

text \<open>\<^verbatim>\<open>time.Parse("02-Jan-2006", v)\<close>.\<close>

definition parseDMonY :: "string \<Rightarrow> date option" where
  "parseDMonY v =
     Option.bind (getnum v) (\<lambda>(day, v1).
     Option.bind (lit ''-'' v1) (\<lambda>v2.
     Option.bind (lookup shortMonthNames v2) (\<lambda>(i, v3).
     Option.bind (lit ''-'' v3) (\<lambda>v4.
     Option.bind (longYear v4) (\<lambda>(year, v5).
       finishDate year (Suc i) day v5)))))"

text \<open>\<^verbatim>\<open>time.Parse("2006-01-02", v)\<close>.\<close>

definition parseYMD :: "string \<Rightarrow> date option" where
  "parseYMD v =
     Option.bind (longYear v) (\<lambda>(year, v1).
     Option.bind (lit ''-'' v1) (\<lambda>v2.
     Option.bind (getnum v2) (\<lambda>(month, v3).
       if month = 0 \<or> 12 < month then None else
     Option.bind (lit ''-'' v3) (\<lambda>v4.
     Option.bind (getnum v4) (\<lambda>(day, v5).
       finishDate year month day v5)))))"

definition digitChar :: "nat \<Rightarrow> char" where
  "digitChar n = char_of (48 + n)"

text \<open>The decimal digits of a number, and \<^verbatim>\<open>appendInt(b, x, width)\<close> for \<open>x \<ge> 0\<close>.\<close>

fun showNat :: "nat \<Rightarrow> string" where
  "showNat n = (if n < 10 then [digitChar n] else showNat (n div 10) @ [digitChar (n mod 10)])"

definition appendInt :: "nat \<Rightarrow> nat \<Rightarrow> string" where
  "appendInt x width = replicate (width - length (showNat x)) CHR ''0'' @ showNat x"

text \<open>\<^verbatim>\<open>t.Format("2006-01-02")\<close>.\<close>

definition Format :: "date \<Rightarrow> string" where
  "Format t =
     (case t of (year, month, day) \<Rightarrow>
        appendInt year 4 @ ''-'' @ appendInt month 2 @ ''-'' @ appendInt day 2)"

subsection \<open>Standard library: package strconv\<close>

definition parseDigits :: "string \<Rightarrow> int option" where
  "parseDigits s =
     (if s \<noteq> [] \<and> list_all isDigit s
      then Some (foldl (\<lambda>n c. n * 10 + int (digitVal c)) 0 s) else None)"

text \<open>
  \<^verbatim>\<open>strconv.Atoi\<close> with a 64-bit \<^verbatim>\<open>int\<close>: an optional sign, at least one decimal
  digit and nothing else, and a value from \<open>-2^63\<close> to \<open>2^63 - 1\<close>. \<open>None\<close> is the
  error (syntax or range).
\<close>

definition Atoi :: "string \<Rightarrow> int option" where
  "Atoi s =
     (case s of
        [] \<Rightarrow> None
      | c # cs \<Rightarrow>
          (if c = CHR ''-'' then
             (case parseDigits cs of
                None \<Rightarrow> None
              | Some n \<Rightarrow> (if n \<le> 9223372036854775808 then Some (- n) else None))
           else
             (case parseDigits (if c = CHR ''+'' then cs else s) of
                None \<Rightarrow> None
              | Some n \<Rightarrow> (if n < 9223372036854775808 then Some n else None))))"

subsection \<open>Standard library: package encoding/csv\<close>

datatype csv_error = EOF | ErrBareQuote | ErrQuote | ErrFieldCount

text \<open>
  \<^verbatim>\<open>readLine\<close> turns the end \<^verbatim>\<open>\r\n\<close> of every line into \<^verbatim>\<open>\n\<close> and drops a
  \<^verbatim>\<open>\r\<close> that is the last byte of the input. Done here once, on the whole input.
\<close>

fun normalizeNL :: "string \<Rightarrow> string" where
  "normalizeNL [] = []"
| "normalizeNL [c] = (if c = CHR 0x0D then [] else [c])"
| "normalizeNL (c # d # cs) =
     (if c = CHR 0x0D \<and> d = CHR 0x0A then CHR 0x0A # normalizeNL cs
      else c # normalizeNL (d # cs))"

text \<open>
  The fields of one record (\<^verbatim>\<open>readRecord\<close>, with the default comma, no lazy quotes,
  no trimming). \<open>fieldStart\<close> is at the first byte of a field, \<open>unquotedField\<close>
  inside a field that did not start with a quote, \<open>quotedField\<close> after the opening
  quote. The result is the fields and the input after the record.
\<close>

fun fieldStart :: "string list \<Rightarrow> string \<Rightarrow> csv_error + (string list \<times> string)"
  and unquotedField :: "string list \<Rightarrow> string \<Rightarrow> string \<Rightarrow> csv_error + (string list \<times> string)"
  and quotedField :: "string list \<Rightarrow> string \<Rightarrow> string \<Rightarrow> csv_error + (string list \<times> string)"
where
  "fieldStart acc [] = Inr (acc @ [[]], [])"
| "fieldStart acc (c # cs) =
     (if c = CHR 0x22 then quotedField acc [] cs
      else if c = CHR '','' then fieldStart (acc @ [[]]) cs
      else if c = CHR 0x0A then Inr (acc @ [[]], cs)
      else unquotedField acc [c] cs)"
| "unquotedField acc buf [] = Inr (acc @ [buf], [])"
| "unquotedField acc buf (c # cs) =
     (if c = CHR '','' then fieldStart (acc @ [buf]) cs
      else if c = CHR 0x0A then Inr (acc @ [buf], cs)
      else if c = CHR 0x22 then Inl ErrBareQuote
      else unquotedField acc (buf @ [c]) cs)"
| "quotedField acc buf [] = Inl ErrQuote"
| "quotedField acc buf [c] =
     (if c = CHR 0x22 then Inr (acc @ [buf], []) else Inl ErrQuote)"
| "quotedField acc buf (c # d # cs) =
     (if c \<noteq> CHR 0x22 then quotedField acc (buf @ [c]) (d # cs)
      else if d = CHR 0x22 then quotedField acc (buf @ [CHR 0x22]) cs
      else if d = CHR '','' then fieldStart (acc @ [buf]) cs
      else if d = CHR 0x0A then Inr (acc @ [buf], cs)
      else Inl ErrQuote)"

text \<open>The reader: the input not yet read, and \<^verbatim>\<open>FieldsPerRecord\<close> (0 until the first record).\<close>

record csv_Reader =
  input :: string
  FieldsPerRecord :: nat

definition NewReader :: "string \<Rightarrow> csv_Reader" where
  "NewReader s = \<lparr>input = normalizeNL s, FieldsPerRecord = 0\<rparr>"

text \<open>
  \<^verbatim>\<open>r.Read()\<close>: empty lines are skipped; at the end of the input the error is
  \<open>EOF\<close>; the first record fixes the number of fields, and a later record with another
  number is the error \<open>ErrFieldCount\<close>.
\<close>

definition csv_Read :: "csv_Reader \<Rightarrow> csv_error + (string list \<times> csv_Reader)" where
  "csv_Read r =
     (let inp = dropWhile (\<lambda>c. c = CHR 0x0A) (input r) in
      if inp = [] then Inl EOF
      else
        (case fieldStart [] inp of
           Inl e \<Rightarrow> Inl e
         | Inr (flds, rest) \<Rightarrow>
             (if 0 < FieldsPerRecord r then
                (if length flds \<noteq> FieldsPerRecord r then Inl ErrFieldCount
                 else Inr (flds, r\<lparr>input := rest\<rparr>))
              else Inr (flds, \<lparr>input = rest, FieldsPerRecord = length flds\<rparr>))))"

subsection \<open>The store\<close>

text \<open>
  Modelled from the spec: the schema of the table \<^verbatim>\<open>results\<close> is not part of the
  sources. The spec gives one table of draws keyed by a unique date, with five main-number
  columns and two star-number columns. A row holds the eight values in the form in which
  the updater binds them to its \<^verbatim>\<open>INSERT\<close> statement (Go strings); what the read
  service's \<^verbatim>\<open>Scan\<close> into an \<^verbatim>\<open>int\<close> makes of a number column is \<open>scanInt\<close>
  below. The table is a list of rows in insertion order. The storage engine itself is
  taken as reliable: a query or statement fails only as the table's content dictates.
\<close>

record row =
  date :: string
  number_1 :: string
  number_2 :: string
  number_3 :: string
  number_4 :: string
  number_5 :: string
  star_1 :: string
  star_2 :: string

type_synonym store = "row list"

text \<open>\<^verbatim>\<open>SELECT date FROM results ORDER BY date DESC LIMIT 1\<close>; \<open>None\<close> is \<^verbatim>\<open>sql.ErrNoRows\<close>.\<close>

definition queryLatestDate :: "store \<Rightarrow> string option" where
  "queryLatestDate db =
     (case db of [] \<Rightarrow> None | r # rs \<Rightarrow> Some (fold max (map date rs) (date r)))"

text \<open>
  The \<^verbatim>\<open>INSERT INTO results\<close> statement: the row is appended. The uniqueness of the
  date column reports a duplicate (\<open>None\<close>).
\<close>

definition execInsert :: "store \<Rightarrow> row \<Rightarrow> store option" where
  "execInsert db r = (if date r \<in> set (map date db) then None else Some (db @ [r]))"

text \<open>\<^verbatim>\<open>SELECT ... FROM results WHERE date = ?\<close> through \<^verbatim>\<open>QueryRow\<close>: the first such row.\<close>

definition queryByDate :: "store \<Rightarrow> string \<Rightarrow> row option" where
  "queryByDate db d = find (\<lambda>r. date r = d) db"

text \<open>\<^verbatim>\<open>SELECT ... FROM results ORDER BY date DESC\<close>.\<close>

definition queryAll :: "store \<Rightarrow> row list" where
  "queryAll db = rev (sort_key date db)"

subsection \<open>The updater\<close>

datatype error =
    FailedToFetchPage string
  | FailedToFetchCSV string
  | DateParsingError string
  | CouldNotFindDate
  | ErrorParsingDateFromWebsite string
  | Expected7NumbersFound nat
  | CouldNotFindNumbersSection
  | InvalidNumberOfResults nat
  | FailedToReadCSVHeader csv_error
  | NoDataFoundInCSV
  | FailedToReadCSVRecord csv_error
  | InvalidCSVFormat nat
  | InvalidNumberAtPosition nat string
  | UnsupportedSiteID int
  | FailedToExecuteSQL

text \<open>One constructor for each \<^verbatim>\<open>log\<close> call of the updater, with its arguments.\<close>

datatype log_entry =
    LogExecuting int
  | LogLastDate string
  | LogFetchingURL string
  | LogFetchingCSV string
  | LogRawDateSnippet string
  | LogRawNumbersSnippet string
  | LogNumbersFound "string list"
  | LogSameDate string
  | LogNewDate string
  | LogNumbers "string list"
  | LogInserted
  | LogOldDateMoreRecent
  | LogErrorProcessingSite int error
  | LogFatal error
  | LogInvalidSiteID string
  | LogUsage

text \<open>
  The network at the time of one attempt: for a URL, the body of the response or the
  error of the transport. The 120 seconds time limit, the random User-Agent and the
  Referer header belong to the transport.
\<close>

type_synonym net = "string \<Rightarrow> string + string"

definition getWebPage :: "bool \<Rightarrow> net \<Rightarrow> string \<Rightarrow> log_entry list \<times> (string + string)" where
  "getWebPage verboseFlag net url = ((if verboseFlag then [LogFetchingURL url] else []), net url)"

definition getCSV :: "bool \<Rightarrow> net \<Rightarrow> string \<Rightarrow> log_entry list \<times> (string + string)" where
  "getCSV verboseFlag net url = ((if verboseFlag then [LogFetchingCSV url] else []), net url)"

text \<open>
  The cases of the \<^verbatim>\<open>switch siteID\<close> of \<^verbatim>\<open>runUpdate\<close>. Each gives what it logged
  and either the error returned or \<^verbatim>\<open>newDate\<close> and \<^verbatim>\<open>numbers\<close>.
\<close>

type_synonym scraped = "log_entry list \<times> (error + (string \<times> string list))"

definition site1 :: "bool \<Rightarrow> net \<Rightarrow> scraped" where
  \<open>site1 verboseFlag net =
     (case getWebPage verboseFlag net ''https://www.euromilhoes.com/'' of
        (lg, Inl e) \<Rightarrow> (lg, Inl (FailedToFetchPage e))
      | (lg, Inr response) \<Rightarrow>
          (let full = getBetween response ''last-results-container'' ''selector-wrapper'';
               dataStr = getBetween full ''<span>'' ''</span>''
           in case parseDMY CHR ''.'' dataStr of
                None \<Rightarrow> (lg, Inl (DateParsingError dataStr))
              | Some t \<Rightarrow>
                  (let newDate = Format t;
                       numFull = getBetween full ''<ul class="results">'' ''</ul>''
                   in (lg, Inr (newDate, findDigitRuns numFull)))))\<close>

definition site2 :: "bool \<Rightarrow> net \<Rightarrow> scraped" where
  \<open>site2 verboseFlag net =
     (case getWebPage verboseFlag net ''https://www.euro-millions.com/results'' of
        (lg, Inl e) \<Rightarrow> (lg, Inl (FailedToFetchPage e))
      | (lg, Inr response) \<Rightarrow>
          (let full = getBetween response ''<ul class="balls">'' ''</ul>'';
               dataStr = getBetween response ''<li><a href="/results/'' [CHR 0x22]
           in case parseDMY CHR ''-'' dataStr of
                None \<Rightarrow> (lg, Inl (DateParsingError dataStr))
              | Some t \<Rightarrow> (lg, Inr (Format t, findDigitRuns full))))\<close>

text \<open>
  Site 3. When the number pattern has a match, the match has its eight submatches, so
  the error of the length test is always raised with zero matches.
\<close>

definition site3 :: "bool \<Rightarrow> net \<Rightarrow> scraped" where
  \<open>site3 verboseFlag net =
     (case getWebPage verboseFlag net ''https://www.jogossantacasa.pt/web/SCCartazResult/'' of
        (lg, Inl e) \<Rightarrow> (lg, Inl (FailedToFetchPage e))
      | (lg, Inr response) \<Rightarrow>
          (case dateRegex3 response of
             None \<Rightarrow> (lg, Inl CouldNotFindDate)
           | Some dataStr \<Rightarrow>
               (case parseDMY CHR ''/'' dataStr of
                  None \<Rightarrow> (lg, Inl (ErrorParsingDateFromWebsite dataStr))
                | Some t \<Rightarrow>
                    (case numRegex3 response of
                       None \<Rightarrow> (lg, Inl (Expected7NumbersFound 0))
                     | Some numbers \<Rightarrow> (lg, Inr (Format t, numbers))))))\<close>

definition site4 :: "bool \<Rightarrow> net \<Rightarrow> scraped" where
  \<open>site4 verboseFlag net =
     (case getWebPage verboseFlag net ''https://www.euromilhoes.com/'' of
        (lg, Inl e) \<Rightarrow> (lg, Inl (FailedToFetchPage e))
      | (lg, Inr response) \<Rightarrow>
          (let dateSection = getBetween response ''<section class="last-results">'' ''</section>'';
               lg1 = lg @ (if verboseFlag then [LogRawDateSnippet dateSection] else [])
           in case dateRegex4 dateSection of
                None \<Rightarrow> (lg1, Inl CouldNotFindDate)
              | Some dataStr \<Rightarrow>
                  (case parseDMY CHR ''.'' dataStr of
                     None \<Rightarrow> (lg1, Inl (DateParsingError dataStr))
                   | Some t \<Rightarrow>
                       (let numSection = getBetween response ''<ul class="results">'' ''</ul>'' in
                        if numSection = [] then (lg1, Inl CouldNotFindNumbersSection)
                        else
                          (let matches = findDigitRuns numSection;
                               lg2 = lg1 @ (if verboseFlag
                                            then [LogRawNumbersSnippet numSection, LogNumbersFound matches]
                                            else [])
                           in if length matches < 7
                              then (lg2, Inl (InvalidNumberOfResults (length matches)))
                              else (lg2, Inr (Format t, matches)))))))\<close>

text \<open>The loop over \<^verbatim>\<open>numbers\<close> of site 5: the first position (from 1) that \<^verbatim>\<open>Atoi\<close> rejects.\<close>

fun firstInvalid :: "nat \<Rightarrow> string list \<Rightarrow> (nat \<times> string) option" where
  "firstInvalid i [] = None"
| "firstInvalid i (num # nums) =
     (if Atoi num = None then Some (i + 1, num) else firstInvalid (i + 1) nums)"

definition site5 :: "bool \<Rightarrow> net \<Rightarrow> scraped" where
  \<open>site5 verboseFlag net =
     (case getCSV verboseFlag net
             ''https://www.national-lottery.co.uk/results/euromillions/draw-history/csv'' of
        (lg, Inl e) \<Rightarrow> (lg, Inl (FailedToFetchCSV e))
      | (lg, Inr csvData) \<Rightarrow>
          (case csv_Read (NewReader csvData) of
             Inl e \<Rightarrow> (lg, Inl (FailedToReadCSVHeader e))
           | Inr (header, r) \<Rightarrow>
               (case csv_Read r of
                  Inl e \<Rightarrow> (lg, Inl (if e = EOF then NoDataFoundInCSV else FailedToReadCSVRecord e))
                | Inr (rec, r') \<Rightarrow>
                    (if length rec < 8 then (lg, Inl (InvalidCSVFormat (length rec)))
                     else
                       (case parseDMonY (rec ! 0) of
                          None \<Rightarrow> (lg, Inl (DateParsingError (rec ! 0)))
                        | Some t \<Rightarrow>
                            (let numbers = [rec ! 1, rec ! 2, rec ! 3, rec ! 4, rec ! 5,
                                            rec ! 6, rec ! 7]
                             in case firstInvalid 0 numbers of
                                  Some (pos, num) \<Rightarrow> (lg, Inl (InvalidNumberAtPosition pos num))
                                | None \<Rightarrow> (lg, Inr (Format t, numbers))))))))\<close>

definition scrape :: "bool \<Rightarrow> net \<Rightarrow> int \<Rightarrow> scraped" where
  "scrape verboseFlag net siteID =
     (if siteID = 1 then site1 verboseFlag net
      else if siteID = 2 then site2 verboseFlag net
      else if siteID = 3 then site3 verboseFlag net
      else if siteID = 4 then site4 verboseFlag net
      else if siteID = 5 then site5 verboseFlag net
      else ([], Inl (UnsupportedSiteID siteID)))"

text \<open>The row bound to the \<^verbatim>\<open>INSERT\<close> statement; \<^verbatim>\<open>numbers\<close> has seven entries there.\<close>

definition insertedRow :: "string \<Rightarrow> string list \<Rightarrow> row" where
  "insertedRow newDate numbers =
     \<lparr>date = newDate,
      number_1 = numbers ! 0, number_2 = numbers ! 1, number_3 = numbers ! 2,
      number_4 = numbers ! 3, number_5 = numbers ! 4,
      star_1 = numbers ! 5, star_2 = numbers ! 6\<rparr>"

text \<open>
  The variable \<^verbatim>\<open>oldDate\<close> after \<^verbatim>\<open>QueryRow(...).Scan(&oldDate)\<close>: it stays the
  empty string when the query has no row (\<^verbatim>\<open>sql.ErrNoRows\<close> is not an error).
\<close>

definition oldDateOf :: "store \<Rightarrow> string" where
  "oldDateOf db = (case queryLatestDate db of None \<Rightarrow> [] | Some d \<Rightarrow> d)"

text \<open>
  \<^verbatim>\<open>runUpdate(db, siteID)\<close>: the error returned (\<open>None\<close> for \<^verbatim>\<open>nil\<close>), the store
  after the call and the lines logged.
\<close>

definition runUpdate ::
  "bool \<Rightarrow> net \<Rightarrow> store \<Rightarrow> int \<Rightarrow> error option \<times> store \<times> log_entry list" where
  "runUpdate verboseFlag net db siteID =
     (let oldDate = oldDateOf db;
          lg0 = LogExecuting siteID # (if verboseFlag then [LogLastDate oldDate] else [])
      in case scrape verboseFlag net siteID of
           (lg, Inl e) \<Rightarrow> (Some e, db, lg0 @ lg)
         | (lg, Inr (newDate, numbers)) \<Rightarrow>
             (if newDate = oldDate then (None, db, lg0 @ lg @ [LogSameDate newDate])
              else if newDate > oldDate then
                (let lg1 = lg0 @ lg @ [LogNewDate newDate, LogNumbers numbers] in
                 if length numbers \<noteq> 7
                 then (Some (InvalidNumberOfResults (length numbers)), db, lg1)
                 else
                   (case execInsert db (insertedRow newDate numbers) of
                      None \<Rightarrow> (Some FailedToExecuteSQL, db, lg1)
                    | Some db' \<Rightarrow> (None, db', lg1 @ [LogInserted])))
              else (None, db, lg0 @ lg @ [LogOldDateMoreRecent])))"

text \<open>
  The loop of \<^verbatim>\<open>main\<close> over \<^verbatim>\<open>sitesToUpdate\<close>. \<open>nets sid\<close> is the network at the
  time of the attempt on site \<open>sid\<close>. The pause of one second is not modelled.
\<close>

fun updateSites ::
  "bool \<Rightarrow> (int \<Rightarrow> net) \<Rightarrow> int list \<Rightarrow> store \<Rightarrow> store \<times> log_entry list" where
  "updateSites verboseFlag nets [] db = (db, [])"
| "updateSites verboseFlag nets (sid # ids) db =
     (case runUpdate verboseFlag (nets sid) db sid of
        (err, db1, lg) \<Rightarrow>
          (case updateSites verboseFlag nets ids db1 of
             (db2, lg2) \<Rightarrow>
               (db2, lg @ (case err of None \<Rightarrow> [] | Some e \<Rightarrow> [LogErrorProcessingSite sid e])
                       @ lg2)))"

text \<open>
  \<^verbatim>\<open>main\<close>: the exit status, the store and the log. \<^verbatim>\<open>log.Fatal\<close> and the usage
  path exit with status 1. The redirection of the log to a file is not modelled.
\<close>

definition main ::
  "string \<Rightarrow> string \<Rightarrow> bool \<Rightarrow> (int \<Rightarrow> net) \<Rightarrow> store \<Rightarrow> nat \<times> store \<times> log_entry list" where
  "main databasePath siteIDStr verboseFlag nets db =
     (if databasePath = [] \<or> siteIDStr = [] then (1, db, [LogUsage])
      else if siteIDStr = ''all'' then
        (case updateSites verboseFlag nets [1, 2, 3, 4, 5] db of (db', lg) \<Rightarrow> (0, db', lg))
      else
        (case Atoi siteIDStr of
           None \<Rightarrow> (1, db, [LogInvalidSiteID siteIDStr])
         | Some siteID \<Rightarrow>
             (case runUpdate verboseFlag (nets siteID) db siteID of
                (None, db', lg) \<Rightarrow> (0, db', lg)
              | (Some e, db', lg) \<Rightarrow> (1, db', lg @ [LogFatal e]))))"

subsection \<open>The read service\<close>

record Result =
  Date :: string
  Numbers :: "int list"
  Stars :: "int list"

text \<open>
  What a handler wrote: an \<^verbatim>\<open>http.Error\<close> with its status and message, or a response
  of \<^verbatim>\<open>sendResponse\<close> (status 200). The bodies are named after the value given to the
  encoder: one \<^verbatim>\<open>Result\<close> or the whole slice (for XML inside \<^verbatim>\<open>AllResults\<close>); the
  plain text has one line for each result.
\<close>

datatype body =
    JSONResult Result
  | JSONResults "Result list"
  | XMLResult Result
  | XMLAllResults "Result list"
  | PlainText "(string \<times> int list \<times> int list) list"

datatype response =
    HttpError nat string
  | Sent string body

text \<open>
  \<^verbatim>\<open>Scan\<close> of a number column into a Go \<^verbatim>\<open>int\<close>: the decimal conversion with the
  64-bit range, as \<^verbatim>\<open>strconv\<close> does it; \<open>None\<close> is the error of \<^verbatim>\<open>Scan\<close>.
\<close>

definition scanInt :: "string \<Rightarrow> int option" where
  "scanInt v = Atoi v"

text \<open>\<^verbatim>\<open>Scan(&res.Date, &n1, ..., &s2)\<close> and the two slices built from it.\<close>

definition scanRow :: "row \<Rightarrow> Result option" where
  "scanRow r =
     (let cells = map scanInt [number_1 r, number_2 r, number_3 r, number_4 r, number_5 r,
                               star_1 r, star_2 r]
      in if list_all (\<lambda>c. c \<noteq> None) cells
         then Some \<lparr>Date = date r, Numbers = map the (take 5 cells), Stars = map the (drop 5 cells)\<rparr>
         else None)"

text \<open>
  \<^verbatim>\<open>sendResponse\<close>; \<open>format\<close> is \<^verbatim>\<open>strings.ToLower(r.URL.Query().Get("format"))\<close>.
  The handlers give every result five numbers and two stars, which the plain text reads
  by index.
\<close>

definition sendResponse :: "string \<Rightarrow> Result list \<Rightarrow> response" where
  "sendResponse format results =
     (if format = ''xml'' then
        Sent ''application/xml''
          (if length results = 1 then XMLResult (results ! 0) else XMLAllResults results)
      else if format = ''plaintext'' then
        Sent ''text/plain''
          (PlainText (map (\<lambda>result. (Date result, take 5 (Numbers result), take 2 (Stars result)))
                          results))
      else
        Sent ''application/json''
          (if length results = 1 then JSONResult (results ! 0) else JSONResults results))"

text \<open>The loop \<^verbatim>\<open>for rows.Next()\<close>: \<open>None\<close> when a \<^verbatim>\<open>Scan\<close> fails.\<close>

fun scanRows :: "row list \<Rightarrow> Result list option" where
  "scanRows [] = Some []"
| "scanRows (r # rs) =
     (case scanRow r of
        None \<Rightarrow> None
      | Some res \<Rightarrow> (case scanRows rs of None \<Rightarrow> None | Some results \<Rightarrow> Some (res # results)))"

definition getAllResults :: "store \<Rightarrow> string \<Rightarrow> response" where
  "getAllResults db format =
     (case scanRows (queryAll db) of
        None \<Rightarrow> HttpError 500 ''Error processing results''
      | Some results \<Rightarrow>
          (if length results = 0 then HttpError 404 ''No results found''
           else sendResponse format results))"

text \<open>\<^verbatim>\<open>resultsHandler\<close>, registered for the path \<^verbatim>\<open>/results\<close>.\<close>

definition resultsHandler :: "store \<Rightarrow> string \<Rightarrow> string \<Rightarrow> response" where
  "resultsHandler db method format =
     (if method \<noteq> ''GET'' then HttpError 405 ''Method Not Allowed''
      else getAllResults db format)"

text \<open>
  \<^verbatim>\<open>dateHandler\<close>, registered for the paths that start with \<^verbatim>\<open>/results/date/\<close>;
  \<open>path\<close> is \<^verbatim>\<open>r.URL.Path\<close>.
\<close>

definition dateHandler :: "store \<Rightarrow> string \<Rightarrow> string \<Rightarrow> string \<Rightarrow> response" where
  "dateHandler db method path format =
     (if method \<noteq> ''GET'' then HttpError 405 ''Method Not Allowed''
      else
        (let d = drop (length ''/results/date/'') path in
         if d = [] then HttpError 400 ''Date parameter is required (format YYYY-MM-DD)''
         else if parseYMD d = None then HttpError 400 ''Invalid date format (use YYYY-MM-DD)''
         else
           (case queryByDate db d of
              None \<Rightarrow> HttpError 404 ''No results found for the specified date''
            | Some r \<Rightarrow>
                (case scanRow r of
                   None \<Rightarrow> HttpError 500 ''Error querying database''
                 | Some result \<Rightarrow> sendResponse format [result]))))"

subsection \<open>Notions used in the statements\<close>

text \<open>
  A calendar date as \<^verbatim>\<open>time.Parse\<close> returns it for the layouts above: a year of four
  digits, a month from 1 to 12 and a day that exists in that month.
\<close>

definition validDate :: "date \<Rightarrow> bool" where
  "validDate t =
     (case t of (year, month, day) \<Rightarrow>
        year < 10000 \<and> 1 \<le> month \<and> month \<le> 12 \<and> 1 \<le> day \<and> day \<le> daysIn month year)"

text \<open>A token of one or two decimal digits, as the number pattern of site 3 captures it.\<close>

definition shortNum :: "string \<Rightarrow> bool" where
  "shortNum n \<longleftrightarrow> 1 \<le> length n \<and> length n \<le> 2 \<and> list_all isDigit n"

text \<open>The lines \<^verbatim>\<open>runUpdate\<close> logs before its \<^verbatim>\<open>switch\<close>.\<close>

definition logHead :: "bool \<Rightarrow> store \<Rightarrow> int \<Rightarrow> log_entry list" where
  "logHead verboseFlag db siteID =
     LogExecuting siteID # (if verboseFlag then [LogLastDate (oldDateOf db)] else [])"

text \<open>The three parts of what \<^verbatim>\<open>runUpdate\<close> gives: the error, the store, the log.\<close>

definition errOf :: "error option \<times> store \<times> log_entry list \<Rightarrow> error option" where
  "errOf r = fst r"

definition storeOf :: "error option \<times> store \<times> log_entry list \<Rightarrow> store" where
  "storeOf r = fst (snd r)"

definition logOf :: "error option \<times> store \<times> log_entry list \<Rightarrow> log_entry list" where
  "logOf r = snd (snd r)"

text \<open>The stored rows of one draw date.\<close>

definition rowsFor :: "string \<Rightarrow> store \<Rightarrow> row list" where
  "rowsFor d db = filter (\<lambda>r. date r = d) db"

subsection \<open>Fixtures\<close>

text \<open>A network that serves the same body for every URL.\<close>

definition serving :: "string \<Rightarrow> net" where
  "serving body' = (\<lambda>url. Inr body')"

text \<open>The same network for the attempt on every site.\<close>

definition sameNet :: "net \<Rightarrow> int \<Rightarrow> net" where
  "sameNet n sid = n"

text \<open>The CSV payload of the national lottery site: the header row and one data row.\<close>

definition csvFixture :: string where
  "csvFixture =
     ''DrawDate,Ball1,Ball2,Ball3,Ball4,Ball5,Star1,Star2'' @ [CHR 0x0A] @
     ''22-Jan-2024,3,17,22,41,49,5,11'' @ [CHR 0x0A]"

definition csvFixtureCRLF :: string where
  "csvFixtureCRLF =
     ''DrawDate,Ball1,Ball2,Ball3,Ball4,Ball5,Star1,Star2'' @ [CHR 0x0D, CHR 0x0A] @
     ''22-Jan-2024,3,17,22,41,49,5,11'' @ [CHR 0x0D, CHR 0x0A]"

text \<open>Stored rows.\<close>

definition draw15 :: row where
  "draw15 =
     \<lparr>date = ''2024-01-15'',
      number_1 = ''1'', number_2 = ''2'', number_3 = ''3'', number_4 = ''4'',
      number_5 = ''5'', star_1 = ''6'', star_2 = ''7''\<rparr>"

definition draw22 :: row where
  "draw22 =
     \<lparr>date = ''2024-01-22'',
      number_1 = ''3'', number_2 = ''17'', number_3 = ''22'', number_4 = ''41'',
      number_5 = ''49'', star_1 = ''5'', star_2 = ''11''\<rparr>"

definition draw29 :: row where
  "draw29 =
     \<lparr>date = ''2024-01-29'',
      number_1 = ''8'', number_2 = ''9'', number_3 = ''10'', number_4 = ''11'',
      number_5 = ''12'', star_1 = ''1'', star_2 = ''2''\<rparr>"

text \<open>A page of euromilhoes.com with the draw of 22.01.2024 and only two numbers.\<close>

definition pageTwoNumbers :: string where
  \<open>pageTwoNumbers =
     ''<div class="last-results-container"><span>22.01.2024</span>'' @
     ''<ul class="results"><li>3</li><li>17</li></ul></div>'' @
     ''<div class="selector-wrapper">''\<close>

text \<open>A page of euromilhoes.com whose first number is \<open>2^63\<close>.\<close>

definition pageHugeNumber :: string where
  \<open>pageHugeNumber =
     ''<div class="last-results-container"><span>22.01.2024</span>'' @
     ''<ul class="results"><li>9223372036854775808</li><li>17</li><li>22</li><li>41</li>'' @
     ''<li>49</li><li>5</li><li>11</li></ul></div><div class="selector-wrapper">''\<close>

text \<open>The row the updater stores for that page.\<close>

definition drawHuge :: row where
  "drawHuge =
     \<lparr>date = ''2024-01-22'',
      number_1 = ''9223372036854775808'', number_2 = ''17'', number_3 = ''22'', number_4 = ''41'',
      number_5 = ''49'', star_1 = ''5'', star_2 = ''11''\<rparr>"

text \<open>
  A page of euromilhoes.com with the draw of 05.02.2024, which both site 1 and site 4
  can read, and a page of euro-millions.com with the draw of 09.02.2024.
\<close>

definition pageFeb5 :: string where
  \<open>pageFeb5 =
     ''<div class="last-results-container"><section class="last-results">'' @
     ''<span>05.02.2024</span></section>'' @
     ''<ul class="results"><li>4</li><li>11</li><li>20</li><li>33</li><li>48</li>'' @
     ''<li>2</li><li>9</li></ul></div><div class="selector-wrapper">''\<close>

definition pageFeb9 :: string where
  \<open>pageFeb9 =
     ''<ul><li><a href="/results/09-02-2024">Friday</a></li></ul>'' @
     ''<ul class="balls"><li>6</li><li>13</li><li>27</li><li>30</li><li>45</li>'' @
     ''<li>1</li><li>12</li></ul>''\<close>

definition netFeb :: net where
  "netFeb =
     (\<lambda>url. if url = ''https://www.euromilhoes.com/'' then Inr pageFeb5
            else if url = ''https://www.euro-millions.com/results'' then Inr pageFeb9
            else Inl ''timeout'')"

text \<open>A network on which only euromilhoes.com answers.\<close>

definition netOnlyFeb5 :: net where
  "netOnlyFeb5 =
     (\<lambda>url. if url = ''https://www.euromilhoes.com/'' then Inr pageFeb5 else Inl ''timeout'')"

definition drawFeb5 :: row where
  "drawFeb5 =
     \<lparr>date = ''2024-02-05'',
      number_1 = ''4'', number_2 = ''11'', number_3 = ''20'', number_4 = ''33'',
      number_5 = ''48'', star_1 = ''2'', star_2 = ''9''\<rparr>"

definition drawFeb9 :: row where
  "drawFeb9 =
     \<lparr>date = ''2024-02-09'',
      number_1 = ''6'', number_2 = ''13'', number_3 = ''27'', number_4 = ''30'',
      number_5 = ''45'', star_1 = ''1'', star_2 = ''12''\<rparr>"

section \<open>Properties\<close>

subsection \<open>The store and the freshness cursor\<close>

lemma oldDateOf_Nil: "oldDateOf [] = []"
  by (simp add: oldDateOf_def queryLatestDate_def)

lemma oldDateOf_Max: "db \<noteq> [] \<Longrightarrow> oldDateOf db = Max (date ` set db)"
proof (cases db)
  case Nil
  then show "db \<noteq> [] \<Longrightarrow> ?thesis" by simp
next
  case (Cons r rs)
  have "fold max (map date rs) (date r) = Max (set (date r # map date rs))"
    by (rule Max.set_eq_fold [symmetric])
  then show ?thesis
    using Cons by (simp add: oldDateOf_def queryLatestDate_def)
qed

lemma oldDateOf_ge: "r \<in> set db \<Longrightarrow> date r \<le> oldDateOf db"
proof -
  assume r: "r \<in> set db"
  then have "db \<noteq> []" by auto
  then have "oldDateOf db = Max (date ` set db)" by (rule oldDateOf_Max)
  moreover have "date r \<le> Max (date ` set db)" using r by simp
  ultimately show ?thesis by simp
qed

lemma oldDateOf_mem: "db \<noteq> [] \<Longrightarrow> oldDateOf db \<in> date ` set db"
proof -
  assume ne: "db \<noteq> []"
  then have "Max (date ` set db) \<in> date ` set db"
    by (intro Max_in) auto
  then show ?thesis using ne by (simp add: oldDateOf_Max)
qed

lemma Nil_le_string: "([] :: string) \<le> s"
  by (cases s) simp_all

lemma oldDateOf_snoc: "oldDateOf (db @ [r]) = max (oldDateOf db) (date r)"
proof (cases "db = []")
  case True
  then show ?thesis
    by (simp add: oldDateOf_Max oldDateOf_Nil max_def Nil_le_string)
next
  case False
  have "Max (date ` set (db @ [r])) = max (date r) (Max (date ` set db))"
    using False by simp
  then show ?thesis
    using False by (simp add: oldDateOf_Max max.commute)
qed

lemma fresh_not_stored: "oldDateOf db < d \<Longrightarrow> d \<notin> date ` set db"
  using oldDateOf_ge by fastforce

lemma execInsert_fresh: "oldDateOf db < date r \<Longrightarrow> execInsert db r = Some (db @ [r])"
  using fresh_not_stored [of db "date r"] by (simp add: execInsert_def)

lemma date_insertedRow: "date (insertedRow d ns) = d"
  by (simp add: insertedRow_def)

lemma runUpdate_error:
  "scrape v net site = (lg, Inl e) \<Longrightarrow>
   runUpdate v net db site =
     (Some e, db, logHead v db site @ lg)"
  by (simp add: runUpdate_def logHead_def Let_def)

lemma runUpdate_same:
  "scrape v net site = (lg, Inr (d, ns)) \<Longrightarrow> d = oldDateOf db \<Longrightarrow>
   runUpdate v net db site =
     (None, db, logHead v db site @ lg
                @ [LogSameDate d])"
  by (simp add: runUpdate_def logHead_def Let_def)

lemma runUpdate_stale:
  "scrape v net site = (lg, Inr (d, ns)) \<Longrightarrow> d < oldDateOf db \<Longrightarrow>
   runUpdate v net db site =
     (None, db, logHead v db site @ lg
                @ [LogOldDateMoreRecent])"
  by (auto simp add: runUpdate_def logHead_def Let_def)

lemma runUpdate_count:
  "scrape v net site = (lg, Inr (d, ns)) \<Longrightarrow> oldDateOf db < d \<Longrightarrow> length ns \<noteq> 7 \<Longrightarrow>
   runUpdate v net db site =
     (Some (InvalidNumberOfResults (length ns)), db,
      logHead v db site @ lg
        @ [LogNewDate d, LogNumbers ns])"
  by (auto simp add: runUpdate_def logHead_def Let_def)

lemma runUpdate_fresh:
  "scrape v net site = (lg, Inr (d, ns)) \<Longrightarrow> oldDateOf db < d \<Longrightarrow> length ns = 7 \<Longrightarrow>
   runUpdate v net db site =
     (None, db @ [insertedRow d ns],
      logHead v db site @ lg
        @ [LogNewDate d, LogNumbers ns, LogInserted])"
  using execInsert_fresh [of db "insertedRow d ns"]
  by (auto simp add: runUpdate_def logHead_def Let_def date_insertedRow)

subsection \<open>Dates: what is parsed is a calendar date, and its canonical form parses again\<close>

declare showNat.simps [simp del]

lemma of_char_digitChar: "n < 10 \<Longrightarrow> of_char (digitChar n) = 48 + n"
  by (simp add: digitChar_def)

lemma isDigit_digitChar: "n < 10 \<Longrightarrow> isDigit (digitChar n)"
  by (simp add: isDigit_def less_eq_char_def of_char_digitChar)

lemma digitVal_digitChar: "n < 10 \<Longrightarrow> digitVal (digitChar n) = n"
  by (simp add: digitVal_def of_char_digitChar)

lemma digitVal_le: "isDigit c \<Longrightarrow> digitVal c \<le> 9"
  unfolding isDigit_def digitVal_def less_eq_char_def by simp linarith

lemma digitChar_0: "digitChar 0 = CHR ''0''"
  by code_simp


lemma showNat_1: "n < 10 \<Longrightarrow> showNat n = [digitChar n]"
  by (subst showNat.simps) simp

lemma showNat_2: "10 \<le> n \<Longrightarrow> n < 100 \<Longrightarrow> showNat n = [digitChar (n div 10), digitChar (n mod 10)]"
  by (subst showNat.simps) (simp add: showNat_1)


lemma showNat_3: "100 \<le> n \<Longrightarrow> n < 1000 \<Longrightarrow>
  showNat n = [digitChar (n div 100), digitChar (n div 10 mod 10), digitChar (n mod 10)]"
proof -
  assume a: "100 \<le> n" "n < 1000"
  have d: "n div 10 div 10 = n div 100" by (simp add: div_mult2_eq [symmetric])
  have "10 \<le> n div 10" "n div 10 < 100" using a by auto
  then have "showNat (n div 10) = [digitChar (n div 10 div 10), digitChar (n div 10 mod 10)]"
    by (rule showNat_2)
  moreover have "showNat n = showNat (n div 10) @ [digitChar (n mod 10)]"
    using a by (subst showNat.simps) simp
  ultimately show ?thesis by (simp add: d)
qed

lemma showNat_4: "1000 \<le> n \<Longrightarrow> n < 10000 \<Longrightarrow>
  showNat n = [digitChar (n div 1000), digitChar (n div 100 mod 10),
               digitChar (n div 10 mod 10), digitChar (n mod 10)]"
proof -
  assume a: "1000 \<le> n" "n < 10000"
  have d: "n div 10 div 100 = n div 1000" "n div 10 div 10 = n div 100"
    by (simp_all add: div_mult2_eq [symmetric])
  have "100 \<le> n div 10" "n div 10 < 1000" using a by auto
  then have "showNat (n div 10) = [digitChar (n div 10 div 100), digitChar (n div 10 div 10 mod 10), digitChar (n div 10 mod 10)]"
    by (rule showNat_3)
  moreover have "showNat n = showNat (n div 10) @ [digitChar (n mod 10)]"
    using a by (subst showNat.simps) simp
  ultimately show ?thesis by (simp add: d)
qed

lemma appendInt_2: "n < 100 \<Longrightarrow> appendInt n 2 = [digitChar (n div 10), digitChar (n mod 10)]"
proof (cases "n < 10")
  case True
  then show ?thesis by (simp add: appendInt_def showNat_1 digitChar_0)
next
  case False
  assume "n < 100"
  with False show ?thesis by (simp add: appendInt_def showNat_2)
qed

lemma replicate_3: "replicate 3 x = [x, x, x]"
  by (simp add: numeral_3_eq_3)

lemma replicate_2: "replicate 2 x = [x, x]"
  by (simp add: numeral_2_eq_2)

lemma appendInt_4: 
  assumes "n < 10000"
  shows "appendInt n 4 = [digitChar (n div 1000), digitChar (n div 100 mod 10),
               digitChar (n div 10 mod 10), digitChar (n mod 10)]"
proof -
  consider "n < 10" | "10 \<le> n" "n < 100" | "100 \<le> n" "n < 1000" | "1000 \<le> n" "n < 10000"
    using assms by linarith
  then show ?thesis
  proof cases
    case 1 then show ?thesis by (simp add: appendInt_def showNat_1 digitChar_0 replicate_3)
  next
    case 2 then show ?thesis by (simp add: appendInt_def showNat_2 digitChar_0 replicate_2)
  next
    case 3 then show ?thesis by (simp add: appendInt_def showNat_3 digitChar_0)
  next
    case 4 then show ?thesis by (simp add: appendInt_def showNat_4)
  qed
qed


lemma daysIn_le: "1 \<le> m \<Longrightarrow> m \<le> 12 \<Longrightarrow> daysIn m y \<le> 31"
proof -
  let ?tab = "[31, 28, 31, 30, 31, 30, 31, 31, 30, 31, 30, 31] :: nat list"
  assume "1 \<le> m" "m \<le> 12"
  then have "m - 1 < length ?tab" by simp
  then have "?tab ! (m - 1) \<in> set ?tab" by (rule nth_mem)
  then have "?tab ! (m - 1) \<le> 31" by auto
  then show ?thesis by (simp add: daysIn_def)
qed

lemma Format_valid:
  "validDate (y, m, d) \<Longrightarrow>
   Format (y, m, d) =
     [digitChar (y div 1000), digitChar (y div 100 mod 10), digitChar (y div 10 mod 10),
      digitChar (y mod 10), CHR ''-'', digitChar (m div 10), digitChar (m mod 10), CHR ''-'',
      digitChar (d div 10), digitChar (d mod 10)]"
proof -
  assume v: "validDate (y, m, d)"
  then have "d \<le> 31" using daysIn_le [of m y] by (simp add: validDate_def)
  with v show ?thesis by (simp add: validDate_def Format_def appendInt_2 appendInt_4)
qed

lemma Format_nonempty: "validDate t \<Longrightarrow> Format t \<noteq> []"
  by (cases t) (simp add: Format_valid)


lemma Format_gt_Nil: "validDate t \<Longrightarrow> [] < Format t"
  by (cases t) (simp add: Format_valid)

lemma digits2: "(m::nat) div 10 * 10 + m mod 10 = m"
  by simp

lemma digits4: "(y::nat) div 1000 * 1000 + y div 100 mod 10 * 100 + y div 10 mod 10 * 10 + y mod 10 = y"
proof -
  have a: "y = y div 10 * 10 + y mod 10" by simp
  have b: "y div 10 = y div 100 * 10 + y div 10 mod 10"
    using div_mult_mod_eq [of "y div 10" 10] by (simp add: div_mult2_eq [symmetric])
  have c: "y div 100 = y div 1000 * 10 + y div 100 mod 10"
    using div_mult_mod_eq [of "y div 100" 10] by (simp add: div_mult2_eq [symmetric])
  show ?thesis using a b c by linarith
qed


lemma digit_lt_10: "(y::nat) < 10000 \<Longrightarrow> y div 1000 < 10"
  by simp

lemma longYear_digits:
  "y < 10000 \<Longrightarrow>
   longYear (digitChar (y div 1000) # digitChar (y div 100 mod 10) # digitChar (y div 10 mod 10)
             # digitChar (y mod 10) # rest) = Some (y, rest)"
  by (simp add: isDigit_digitChar digitVal_digitChar digits4 digit_lt_10)

lemma getnum_digits:
  "m < 100 \<Longrightarrow> getnum (digitChar (m div 10) # digitChar (m mod 10) # rest) = Some (m, rest)"
  by (simp add: isDigit_digitChar digitVal_digitChar)

lemma parseYMD_Format: "validDate t \<Longrightarrow> parseYMD (Format t) = Some t"
proof (cases t)
  case (fields y m d)
  assume v: "validDate t"
  then have b: "y < 10000" "1 \<le> m" "m \<le> 12" "1 \<le> d" "d \<le> daysIn m y"
    using fields by (simp_all add: validDate_def)
  then have "d \<le> 31" using daysIn_le [of m y] by simp
  then have d: "d < 100" and m: "m < 100" using b by simp_all
  have F: "Format t = digitChar (y div 1000) # digitChar (y div 100 mod 10) #
      digitChar (y div 10 mod 10) # digitChar (y mod 10) #
      (CHR ''-'' # digitChar (m div 10) # digitChar (m mod 10) #
        (CHR ''-'' # digitChar (d div 10) # digitChar (d mod 10) # []))"
    using v fields by (simp add: Format_valid)
  show ?thesis
    unfolding F parseYMD_def longYear_digits [OF b(1)]
    using b fields
    by (simp add: lit_def getnum_digits [OF m] getnum_digits [OF d] finishDate_def
        del: getnum.simps longYear.simps)
qed


lemma longYear_lt: "longYear s = Some (y, r) \<Longrightarrow> y < 10000"
proof (induction s rule: longYear.induct)
  case (1 a b c d rest)
  then have "isDigit a" "isDigit b" "isDigit c" "isDigit d"
    and y: "y = digitVal a * 1000 + digitVal b * 100 + digitVal c * 10 + digitVal d"
    by (auto split: if_splits)
  then have "digitVal a \<le> 9" "digitVal b \<le> 9" "digitVal c \<le> 9" "digitVal d \<le> 9"
    by (simp_all add: digitVal_le)
  then show ?case unfolding y by linarith
qed simp_all

lemma finishDate_Some:
  "finishDate y m d r = Some t \<Longrightarrow> t = (y, m, d) \<and> 1 \<le> d \<and> d \<le> daysIn m y"
  by (auto simp add: finishDate_def split: if_splits)

lemma lookup_lt: "lookup tab v = Some (i, r) \<Longrightarrow> i < length tab"
  by (induction tab arbitrary: i) (auto split: if_splits)

lemma parseDMY_valid: "parseDMY sep s = Some t \<Longrightarrow> validDate t"
  unfolding parseDMY_def
  by (auto simp add: bind_eq_Some_conv validDate_def split: if_splits
      dest!: longYear_lt finishDate_Some)

lemma parseDMonY_valid: "parseDMonY s = Some t \<Longrightarrow> validDate t"
  unfolding parseDMonY_def
  by (auto simp add: bind_eq_Some_conv validDate_def shortMonthNames_def split: if_splits
      dest!: longYear_lt finishDate_Some lookup_lt)


lemma site1_date: "site1 v net = (lg, Inr (d, ns)) \<Longrightarrow> \<exists>t. validDate t \<and> d = Format t"
  unfolding site1_def
  by (auto simp add: Let_def split: prod.splits sum.splits option.splits dest: parseDMY_valid)

lemma site2_date: "site2 v net = (lg, Inr (d, ns)) \<Longrightarrow> \<exists>t. validDate t \<and> d = Format t"
  unfolding site2_def
  by (auto simp add: Let_def split: prod.splits sum.splits option.splits dest: parseDMY_valid)

lemma site3_date: "site3 v net = (lg, Inr (d, ns)) \<Longrightarrow> \<exists>t. validDate t \<and> d = Format t"
  unfolding site3_def
  by (auto simp add: Let_def split: prod.splits sum.splits option.splits dest: parseDMY_valid)

lemma site4_date: "site4 v net = (lg, Inr (d, ns)) \<Longrightarrow> \<exists>t. validDate t \<and> d = Format t"
  unfolding site4_def
  by (auto simp add: Let_def split: prod.splits sum.splits option.splits if_splits
      dest: parseDMY_valid)

lemma site5_date: "site5 v net = (lg, Inr (d, ns)) \<Longrightarrow> \<exists>t. validDate t \<and> d = Format t"
  unfolding site5_def
  by (auto simp add: Let_def split: prod.splits sum.splits option.splits if_splits
      dest: parseDMonY_valid)

lemma scrape_date:
  assumes "scrape v net site = (lg, Inr (d, ns))"
  shows "\<exists>t. validDate t \<and> d = Format t"
proof -
  consider "site1 v net = (lg, Inr (d, ns))" | "site2 v net = (lg, Inr (d, ns))"
    | "site3 v net = (lg, Inr (d, ns))" | "site4 v net = (lg, Inr (d, ns))"
    | "site5 v net = (lg, Inr (d, ns))"
    using assms unfolding scrape_def by (auto split: if_splits)
  then show ?thesis
    by cases (rule site1_date site2_date site3_date site4_date site5_date, assumption)+
qed

lemma scrape_date_gt_Nil: "scrape v net site = (lg, Inr (d, ns)) \<Longrightarrow> [] < d"
  using scrape_date Format_gt_Nil by blast

lemma findFirst_Some: "findFirst m s = Some r \<Longrightarrow> \<exists>s'. m s' = Some r"
  by (induction s) (auto split: option.splits)

lemma numThenSpaces_len:
  "numThenSpaces s = Some (n, r) \<Longrightarrow> 1 \<le> length n \<and> length n \<le> 2 \<and> list_all isDigit n"
  unfolding numThenSpaces_def num12_def
  by (auto simp add: Let_def list_all_iff split: option.splits if_splits dest: set_takeWhileD)

lemma lastNum12_len:
  "lastNum12 s = Some n \<Longrightarrow> 1 \<le> length n \<and> length n \<le> 2 \<and> list_all isDigit n"
  unfolding lastNum12_def
  by (auto simp add: Let_def list_all_iff Suc_le_eq split: if_splits
      dest!: in_set_takeD dest: set_takeWhileD)

lemma numMatch3_shape:
  "numMatch3 s = Some ns \<Longrightarrow> length ns = 7 \<and> list_all shortNum ns"
  unfolding numMatch3_def shortNum_def
  by (auto simp add: bind_eq_Some_conv dest!: numThenSpaces_len lastNum12_len)

lemma site3_shape:
  "site3 v net = (lg, Inr (d, ns)) \<Longrightarrow> length ns = 7 \<and> list_all shortNum ns"
  unfolding site3_def numRegex3_def
  by (auto simp add: Let_def split: prod.splits sum.splits option.splits
      dest!: findFirst_Some numMatch3_shape)

lemma site4_count: "site4 v net = (lg, Inr (d, ns)) \<Longrightarrow> 7 \<le> length ns"
  unfolding site4_def
  by (auto simp add: Let_def split: prod.splits sum.splits option.splits if_splits)

lemma firstInvalid_None: "firstInvalid i ns = None \<Longrightarrow> \<forall>n \<in> set ns. Atoi n \<noteq> None"
  by (induction ns arbitrary: i) (auto split: if_splits)

lemma site5_shape:
  "site5 v net = (lg, Inr (d, ns)) \<Longrightarrow> length ns = 7 \<and> (\<forall>n \<in> set ns. Atoi n \<noteq> None)"
  unfolding site5_def
  by (auto simp add: Let_def split: prod.splits sum.splits option.splits if_splits
      dest!: firstInvalid_None)

subsection \<open>What one attempt does to the store\<close>

lemma oldDateOf_fresh: "oldDateOf db < d \<Longrightarrow> oldDateOf (db @ [insertedRow d ns]) = d"
  by (auto simp add: oldDateOf_snoc date_insertedRow max_def)

lemma runUpdate_store_cases:
  "fst (snd (runUpdate v net db site)) = db
   \<or> (\<exists>lg d ns. scrape v net site = (lg, Inr (d, ns)) \<and> oldDateOf db < d \<and> length ns = 7
         \<and> fst (snd (runUpdate v net db site)) = db @ [insertedRow d ns])"
proof (cases "scrape v net site")
  case (Pair lg res)
  show ?thesis
  proof (cases res)
    case (Inl e)
    with Pair show ?thesis by (simp add: runUpdate_error)
  next
    case (Inr p)
    obtain d ns where p: "p = (d, ns)" by (cases p)
    have s: "scrape v net site = (lg, Inr (d, ns))" using Pair Inr p by simp
    consider "d = oldDateOf db" | "d < oldDateOf db" | "oldDateOf db < d" "length ns \<noteq> 7"
      | "oldDateOf db < d" "length ns = 7"
      by fastforce
    then show ?thesis
    proof cases
      case 1 then show ?thesis using runUpdate_same [OF s] by simp
    next
      case 2 then show ?thesis using runUpdate_stale [OF s] by simp
    next
      case 3 then show ?thesis using runUpdate_count [OF s] by simp
    next
      case 4 then show ?thesis using runUpdate_fresh [OF s] s by simp
    qed
  qed
qed

lemma runUpdate_twice_store:
  "fst (snd (runUpdate v net (fst (snd (runUpdate v net db site))) site))
     = fst (snd (runUpdate v net db site))"
proof (cases "scrape v net site")
  case (Pair lg res)
  show ?thesis
  proof (cases res)
    case (Inl e)
    with Pair show ?thesis by (simp add: runUpdate_error)
  next
    case (Inr p)
    obtain d ns where p: "p = (d, ns)" by (cases p)
    have s: "scrape v net site = (lg, Inr (d, ns))" using Pair Inr p by simp
    consider "d = oldDateOf db" | "d < oldDateOf db" | "oldDateOf db < d" "length ns \<noteq> 7"
      | "oldDateOf db < d" "length ns = 7"
      by fastforce
    then show ?thesis
    proof cases
      case 1 then show ?thesis using runUpdate_same [OF s] by simp
    next
      case 2 then show ?thesis using runUpdate_stale [OF s] by simp
    next
      case 3 then show ?thesis using runUpdate_count [OF s] by simp
    next
      case 4
      have "runUpdate v net db site = (None, db @ [insertedRow d ns],
          logHead v db site @ lg @ [LogNewDate d, LogNumbers ns, LogInserted])"
        using 4 by (rule runUpdate_fresh [OF s])
      moreover have "d = oldDateOf (db @ [insertedRow d ns])"
        using 4(1) by (simp add: oldDateOf_fresh)
      ultimately show ?thesis using runUpdate_same [OF s, of "db @ [insertedRow d ns]"] by simp
    qed
  qed
qed

lemma rowsFor_unique:
  "distinct (map date db) \<Longrightarrow> d \<in> date ` set db \<Longrightarrow> length (rowsFor d db) = 1"
proof (induction db)
  case Nil
  then show ?case by simp
next
  case (Cons r db)
  show ?case
  proof (cases "date r = d")
    case True
    then have "d \<notin> date ` set db" using Cons.prems(1) by auto
    then have "filter (\<lambda>r. date r = d) db = []" by (auto simp add: filter_empty_conv)
    with True show ?thesis by (simp add: rowsFor_def)
  next
    case False
    then have "d \<in> date ` set db" using Cons.prems(2) by auto
    with Cons False show ?thesis by (simp add: rowsFor_def)
  qed
qed

lemma rowsFor_fresh:
  "oldDateOf db < d \<Longrightarrow> rowsFor d (db @ [insertedRow d ns]) = [insertedRow d ns]"
proof -
  assume "oldDateOf db < d"
  then have "d \<notin> date ` set db" by (rule fresh_not_stored)
  then have "filter (\<lambda>r. date r = d) db = []" by (auto simp add: filter_empty_conv)
  then show ?thesis by (simp add: rowsFor_def date_insertedRow)
qed

subsection \<open>Tokens as integers, and the exact-date lookup\<close>

lemma isDigit_not_sign: "isDigit c \<Longrightarrow> c \<noteq> CHR ''-'' \<and> c \<noteq> CHR ''+''"
  by (auto simp add: isDigit_def less_eq_char_def)

lemma Atoi_shortNum: "shortNum n \<Longrightarrow> Atoi n \<noteq> None"
proof -
  assume sn: "shortNum n"
  then consider a where "n = [a]" "isDigit a" | a b where "n = [a, b]" "isDigit a" "isDigit b"
    unfolding shortNum_def
    by (cases n; cases "tl n"; cases "tl (tl n)") auto
  then show ?thesis
  proof cases
    case 1
    have "int (digitVal a) < 9223372036854775808" using digitVal_le [OF 1(2)] by linarith
    then show ?thesis
      using 1 isDigit_not_sign [OF 1(2)] by (simp add: Atoi_def parseDigits_def)
  next
    case 2
    have "int (digitVal a) * 10 + int (digitVal b) < 9223372036854775808"
      using digitVal_le [OF 2(2)] digitVal_le [OF 2(3)] by linarith
    then show ?thesis
      using 2 isDigit_not_sign [OF 2(2)] by (simp add: Atoi_def parseDigits_def)
  qed
qed

lemma all_Atoi_values: "\<forall>n \<in> set ns. Atoi n \<noteq> None \<Longrightarrow> \<exists>vs. map Atoi ns = map Some vs"
proof (induction ns)
  case Nil
  then show ?case by simp
next
  case (Cons n ns)
  then obtain vs where vs: "map Atoi ns = map Some vs" by auto
  from Cons.prems obtain w where "Atoi n = Some w" by auto
  with vs have "map Atoi (n # ns) = map Some (w # vs)" by simp
  then show ?case by blast
qed

lemma scrape_site3: "scrape v net 3 = site3 v net"
  by (simp add: scrape_def)

lemma scrape_site4: "scrape v net 4 = site4 v net"
  by (simp add: scrape_def)

lemma scrape_site5: "scrape v net 5 = site5 v net"
  by (simp add: scrape_def)

lemma seven_elems:
  "length ns = 7 \<Longrightarrow> \<exists>a b c d e f g. ns = [a, b, c, d, e, f, g]"
  by (simp add: eval_nat_numeral length_Suc_conv) blast

lemma scanRow_insertedRow:
  assumes "length ns = 7" and "map Atoi ns = map Some values"
  shows "scanRow (insertedRow d ns) = Some \<lparr>Date = d, Numbers = take 5 values, Stars = drop 5 values\<rparr>"
proof -
  obtain a b c e f g h where ns: "ns = [a, b, c, e, f, g, h]"
    using seven_elems [OF assms(1)] by blast
  have "length values = 7" using assms by (metis length_map)
  then obtain a' b' c' e' f' g' h' where vs: "values = [a', b', c', e', f', g', h']"
    using seven_elems by blast
  show ?thesis
    using assms(2) unfolding ns vs
    by (simp add: scanRow_def insertedRow_def scanInt_def)
qed

lemma find_snoc_None: "find P xs = None \<Longrightarrow> find P (xs @ [y]) = (if P y then Some y else None)"
  by (induction xs) (auto split: if_splits)

lemma queryByDate_fresh:
  "oldDateOf db < d \<Longrightarrow> queryByDate (db @ [insertedRow d ns]) d = Some (insertedRow d ns)"
proof -
  assume "oldDateOf db < d"
  then have "d \<notin> date ` set db" by (rule fresh_not_stored)
  then have "find (\<lambda>r. date r = d) db = None" by (auto simp add: find_None_iff)
  then show ?thesis by (simp add: queryByDate_def find_snoc_None date_insertedRow)
qed

lemma dateHandler_found:
  assumes "validDate t" and "queryByDate db (Format t) = Some r" and "scanRow r = Some result"
  shows "dateHandler db ''GET'' (''/results/date/'' @ Format t) format = sendResponse format [result]"
proof -
  have "Format t \<noteq> []" using assms(1) by (rule Format_nonempty)
  moreover have "parseYMD (Format t) = Some t" using assms(1) by (rule parseYMD_Format)
  ultimately show ?thesis using assms(2,3) by (simp add: dateHandler_def Let_def)
qed

subsection \<open>The shape of a response\<close>

lemma sendResponse_one_json:
  "format \<noteq> ''xml'' \<Longrightarrow> format \<noteq> ''plaintext'' \<Longrightarrow>
   sendResponse format [r] = Sent ''application/json'' (JSONResult r)"
  by (simp add: sendResponse_def)

lemma sendResponse_many_json:
  "format \<noteq> ''xml'' \<Longrightarrow> format \<noteq> ''plaintext'' \<Longrightarrow> length rs \<noteq> 1 \<Longrightarrow>
   sendResponse format rs = Sent ''application/json'' (JSONResults rs)"
  by (simp add: sendResponse_def)

lemma sendResponse_one_xml: "sendResponse ''xml'' [r] = Sent ''application/xml'' (XMLResult r)"
  by (simp add: sendResponse_def)

lemma sendResponse_many_xml:
  "length rs \<noteq> 1 \<Longrightarrow> sendResponse ''xml'' rs = Sent ''application/xml'' (XMLAllResults rs)"
  by (simp add: sendResponse_def)

lemma sort_key_single: "sort_key f [x] = [x]"
  by simp

lemma resultsHandler_one_row:
  "scanRow rw = Some r \<Longrightarrow> resultsHandler [rw] ''GET'' format = sendResponse format [r]"
  by (simp add: resultsHandler_def getAllResults_def queryAll_def)

subsection \<open>The run over all sites\<close>

lemma runUpdate_error_store:
  "errOf (runUpdate v net db site) = Some e \<Longrightarrow> storeOf (runUpdate v net db site) = db"
proof -
  assume e: "errOf (runUpdate v net db site) = Some e"
  have "fst (snd (runUpdate v net db site)) = db
   \<or> (\<exists>lg d ns. scrape v net site = (lg, Inr (d, ns)) \<and> oldDateOf db < d \<and> length ns = 7
         \<and> fst (snd (runUpdate v net db site)) = db @ [insertedRow d ns])"
    by (rule runUpdate_store_cases)
  then show ?thesis
  proof
    assume "fst (snd (runUpdate v net db site)) = db"
    then show ?thesis by (simp add: storeOf_def)
  next
    assume "\<exists>lg d ns. scrape v net site = (lg, Inr (d, ns)) \<and> oldDateOf db < d \<and> length ns = 7
         \<and> fst (snd (runUpdate v net db site)) = db @ [insertedRow d ns]"
    then obtain lg d ns where "scrape v net site = (lg, Inr (d, ns))" "oldDateOf db < d"
      "length ns = 7" by blast
    then have "fst (runUpdate v net db site) = None" using runUpdate_fresh by simp
    with e show ?thesis by (simp add: errOf_def)
  qed
qed

lemma main_all_chain:
  "databasePath \<noteq> [] \<Longrightarrow>
     (let r1 = runUpdate v (nets 1) db 1;
          r2 = runUpdate v (nets 2) (storeOf r1) 2;
          r3 = runUpdate v (nets 3) (storeOf r2) 3;
          r4 = runUpdate v (nets 4) (storeOf r3) 4;
          r5 = runUpdate v (nets 5) (storeOf r4) 5
      in main databasePath ''all'' v nets db =
           (0, storeOf r5,
            logOf r1 @ (case errOf r1 of None \<Rightarrow> [] | Some e \<Rightarrow> [LogErrorProcessingSite 1 e])
            @ logOf r2 @ (case errOf r2 of None \<Rightarrow> [] | Some e \<Rightarrow> [LogErrorProcessingSite 2 e])
            @ logOf r3 @ (case errOf r3 of None \<Rightarrow> [] | Some e \<Rightarrow> [LogErrorProcessingSite 3 e])
            @ logOf r4 @ (case errOf r4 of None \<Rightarrow> [] | Some e \<Rightarrow> [LogErrorProcessingSite 4 e])
            @ logOf r5 @ (case errOf r5 of None \<Rightarrow> [] | Some e \<Rightarrow> [LogErrorProcessingSite 5 e])))"
  by (simp add: main_def Let_def errOf_def storeOf_def logOf_def split: prod.splits)

lemma main_single_error:
  "databasePath \<noteq> [] \<Longrightarrow> siteIDStr \<noteq> ''all'' \<Longrightarrow> Atoi siteIDStr = Some site \<Longrightarrow>
   errOf (runUpdate v (nets site) db site) = Some e \<Longrightarrow>
   main databasePath siteIDStr v nets db =
     (1, db, logOf (runUpdate v (nets site) db site) @ [LogFatal e])"
proof -
  assume a: "databasePath \<noteq> []" "siteIDStr \<noteq> ''all''" "Atoi siteIDStr = Some site"
    and e: "errOf (runUpdate v (nets site) db site) = Some e"
  have ne: "siteIDStr \<noteq> []" using a(3) by (auto simp add: Atoi_def)
  have st: "storeOf (runUpdate v (nets site) db site) = db" using e by (rule runUpdate_error_store)
  obtain err db' lg where r: "runUpdate v (nets site) db site = (err, db', lg)"
    by (cases "runUpdate v (nets site) db site")
  with e st have "err = Some e" "db' = db" by (simp_all add: errOf_def storeOf_def)
  with r a ne show ?thesis by (simp add: main_def logOf_def)
qed


lemma runUpdate_keeps_rows:
  assumes "d \<le> oldDateOf db"
  shows "rowsFor d (storeOf (runUpdate v net db site)) = rowsFor d db
       \<and> d \<le> oldDateOf (storeOf (runUpdate v net db site))"
proof -
  have "fst (snd (runUpdate v net db site)) = db
   \<or> (\<exists>lg d' ns. scrape v net site = (lg, Inr (d', ns)) \<and> oldDateOf db < d' \<and> length ns = 7
         \<and> fst (snd (runUpdate v net db site)) = db @ [insertedRow d' ns])"
    by (rule runUpdate_store_cases)
  then show ?thesis
  proof
    assume "fst (snd (runUpdate v net db site)) = db"
    then show ?thesis using assms by (simp add: storeOf_def)
  next
    assume "\<exists>lg d' ns. scrape v net site = (lg, Inr (d', ns)) \<and> oldDateOf db < d' \<and> length ns = 7
         \<and> fst (snd (runUpdate v net db site)) = db @ [insertedRow d' ns]"
    then obtain d' ns where lt: "oldDateOf db < d'"
      and st: "fst (snd (runUpdate v net db site)) = db @ [insertedRow d' ns]" by blast
    have "d < d'" using assms lt by simp
    then have "d' \<noteq> d" by simp
    then have "rowsFor d (db @ [insertedRow d' ns]) = rowsFor d db"
      by (simp add: rowsFor_def date_insertedRow)
    moreover have "d \<le> oldDateOf (db @ [insertedRow d' ns])"
      using \<open>d < d'\<close> lt by (simp add: oldDateOf_fresh)
    ultimately show ?thesis using st by (simp add: storeOf_def)
  qed
qed

lemma runUpdate_seen_date:
  assumes s: "scrape v net site = (lg, Inr (d, ns))" and le: "d \<le> oldDateOf db"
  shows "runUpdate v net db site =
           (None, db, logHead v db site @ lg
                      @ [if oldDateOf db = d then LogSameDate d else LogOldDateMoreRecent])"
proof (cases "oldDateOf db = d")
  case True
  then show ?thesis using runUpdate_same [OF s, of db] by simp
next
  case False
  then have "d < oldDateOf db" using le by simp
  then show ?thesis using runUpdate_stale [OF s, of db] False by simp
qed

subsection \<open>The fixtures, evaluated\<close>

lemma scrape_csvFixture:
  "scrape False (serving csvFixture) 5 =
     ([], Inr (''2024-01-22'', [''3'', ''17'', ''22'', ''41'', ''49'', ''5'', ''11'']))"
  by code_simp

lemma scrape_pageTwoNumbers:
  "scrape False (serving pageTwoNumbers) 1 = ([], Inr (''2024-01-22'', [''3'', ''17'']))"
  by code_simp

lemma oldDateOf_draw15: "oldDateOf [draw15] = ''2024-01-15''"
  by code_simp

lemma oldDateOf_draw29: "oldDateOf [draw29] = ''2024-01-29''"
  by code_simp

lemma oldDateOf_draw15_22: "oldDateOf [draw15, draw22] = ''2024-01-22''"
  by code_simp

lemma date_15_lt_22: "(''2024-01-15'' :: string) < ''2024-01-22''"
  by code_simp

lemma date_22_lt_29: "(''2024-01-22'' :: string) < ''2024-01-29''"
  by code_simp

lemma insertedRow_draw22:
  "insertedRow ''2024-01-22'' [''3'', ''17'', ''22'', ''41'', ''49'', ''5'', ''11''] = draw22"
  by (simp add: draw22_def insertedRow_def)

lemma scrape_stale_csvFixture:
  "runUpdate False (serving csvFixture) [draw29] 5 =
     (None, [draw29], [LogExecuting 5, LogOldDateMoreRecent])"
  using runUpdate_stale [OF scrape_csvFixture, of "[draw29]"]
  by (simp add: oldDateOf_draw29 date_22_lt_29 logHead_def)

lemma rowsFor_22_draw29: "rowsFor ''2024-01-22'' [draw29] = []"
  by code_simp

lemma distinct_draw15: "distinct (map date [draw15])"
  by simp

lemma rowsFor_22_draw15_22: "rowsFor ''2024-01-22'' [draw15, draw22] = [draw22]"
  by code_simp

lemma runUpdate_csvFixture_draw15:
  "runUpdate False (serving csvFixture) [draw15] 5 =
       (None, [draw15, draw22],
        [LogExecuting 5, LogNewDate ''2024-01-22'',
         LogNumbers [''3'', ''17'', ''22'', ''41'', ''49'', ''5'', ''11''], LogInserted])"
  using runUpdate_fresh [OF scrape_csvFixture, of "[draw15]"]
  by (simp add: oldDateOf_draw15 date_15_lt_22 logHead_def insertedRow_draw22)

lemma scrape_pageHugeNumber:
  "scrape False (serving pageHugeNumber) 1 =
     ([], Inr (''2024-01-22'',
               [''9223372036854775808'', ''17'', ''22'', ''41'', ''49'', ''5'', ''11'']))"
  by code_simp

lemma dateHandler_drawHuge:
  "dateHandler [draw15, drawHuge] ''GET'' ''/results/date/2024-01-22'' ''json'' =
     HttpError 500 ''Error querying database''"
  by code_simp

lemma runUpdate_pageHugeNumber:
  "runUpdate False (serving pageHugeNumber) [draw15] 1 =
     (None, [draw15, drawHuge],
      [LogExecuting 1, LogNewDate ''2024-01-22'',
       LogNumbers [''9223372036854775808'', ''17'', ''22'', ''41'', ''49'', ''5'', ''11''],
       LogInserted])"
  using runUpdate_fresh [OF scrape_pageHugeNumber, of "[draw15]"]
  by (simp add: oldDateOf_draw15 date_15_lt_22 logHead_def drawHuge_def insertedRow_def)

lemma runUpdate_pageTwoNumbers_same:
  "runUpdate False (serving pageTwoNumbers) [draw15, draw22] 1 =
     (None, [draw15, draw22], [LogExecuting 1, LogSameDate ''2024-01-22''])"
  using runUpdate_same [OF scrape_pageTwoNumbers, of "[draw15, draw22]"]
  by (simp add: oldDateOf_draw15_22 logHead_def)

lemma Atoi_fixture_numbers:
  "map Atoi [''3'', ''17'', ''22'', ''41'', ''49'', ''5'', ''11''] = map Some [3, 17, 22, 41, 49, 5, 11]"
  by code_simp

lemma csv_header_csvFixture:
  "csv_Read (NewReader csvFixture) =
     Inr ([''DrawDate'', ''Ball1'', ''Ball2'', ''Ball3'', ''Ball4'', ''Ball5'', ''Star1'', ''Star2''],
          \<lparr>input = ''22-Jan-2024,3,17,22,41,49,5,11'' @ [CHR 0x0A], FieldsPerRecord = 8\<rparr>)"
  by code_simp

lemma csv_row_csvFixture:
  "csv_Read \<lparr>input = ''22-Jan-2024,3,17,22,41,49,5,11'' @ [CHR 0x0A], FieldsPerRecord = 8\<rparr> =
     Inr ([''22-Jan-2024'', ''3'', ''17'', ''22'', ''41'', ''49'', ''5'', ''11''],
          \<lparr>input = [], FieldsPerRecord = 8\<rparr>)"
  by code_simp

lemma parseDMonY_22_Jan: "parseDMonY ''22-Jan-2024'' = Some (2024, 1, 22)"
  by code_simp

lemma Format_22_Jan: "Format (2024, 1, 22) = ''2024-01-22''"
  by code_simp

lemma scrape_csvFixtureCRLF:
  "scrape False (serving csvFixtureCRLF) 5 =
     ([], Inr (''2024-01-22'', [''3'', ''17'', ''22'', ''41'', ''49'', ''5'', ''11'']))"
  by code_simp

lemma scanRow_draw22:
  "scanRow \<lparr>date = ''2024-01-22'',
             number_1 = ''3'', number_2 = ''17'', number_3 = ''22'', number_4 = ''41'',
             number_5 = ''49'', star_1 = ''5'', star_2 = ''11''\<rparr> =
     Some \<lparr>Date = ''2024-01-22'', Numbers = [3, 17, 22, 41, 49], Stars = [5, 11]\<rparr>"
  by code_simp

lemma scanRow_draw15:
  "scanRow draw15 = Some \<lparr>Date = ''2024-01-15'', Numbers = [1, 2, 3, 4, 5], Stars = [6, 7]\<rparr>"
  by code_simp

lemma json_not_xml: "''json'' \<noteq> ''xml'' \<and> ''json'' \<noteq> ''plaintext''"
  by simp

lemma resultsHandler_two_rows:
  "resultsHandler [draw15, draw22] ''GET'' ''json'' =
     Sent ''application/json''
       (JSONResults
          [\<lparr>Date = ''2024-01-22'', Numbers = [3, 17, 22, 41, 49], Stars = [5, 11]\<rparr>,
           \<lparr>Date = ''2024-01-15'', Numbers = [1, 2, 3, 4, 5], Stars = [6, 7]\<rparr>])"
  by code_simp

lemma scrape1_netFeb:
  "scrape False netFeb 1 =
     ([], Inr (''2024-02-05'', [''4'', ''11'', ''20'', ''33'', ''48'', ''2'', ''9'']))"
  by code_simp

lemma scrape4_netFeb:
  "scrape False netFeb 4 =
     ([], Inr (''2024-02-05'', [''4'', ''11'', ''20'', ''33'', ''48'', ''2'', ''9'']))"
  by code_simp

lemma oldDateOf_before4: "oldDateOf [draw29, drawFeb5, drawFeb9] = ''2024-02-09''"
  by code_simp

lemma date_29_lt_Feb5: "oldDateOf [draw29] < ''2024-02-05''"
  by code_simp

lemma run1_netFeb:
  "runUpdate False netFeb [draw29] 1 =
     (None, [draw29, drawFeb5],
      [LogExecuting 1, LogNewDate ''2024-02-05'',
       LogNumbers [''4'', ''11'', ''20'', ''33'', ''48'', ''2'', ''9''], LogInserted])"
  using runUpdate_fresh [OF scrape1_netFeb date_29_lt_Feb5]
  by (simp add: logHead_def insertedRow_def drawFeb5_def)

lemma run2_netFeb:
  "runUpdate False netFeb [draw29, drawFeb5] 2 =
     (None, [draw29, drawFeb5, drawFeb9],
      [LogExecuting 2, LogNewDate ''2024-02-09'',
       LogNumbers [''6'', ''13'', ''27'', ''30'', ''45'', ''1'', ''12''], LogInserted])"
  by code_simp

lemma run3_netFeb:
  "runUpdate False netFeb [draw29, drawFeb5, drawFeb9] 3 =
     (Some (FailedToFetchPage ''timeout''), [draw29, drawFeb5, drawFeb9], [LogExecuting 3])"
  by code_simp

lemma run4_netFeb:
  "runUpdate False netFeb [draw29, drawFeb5, drawFeb9] 4 =
     (None, [draw29, drawFeb5, drawFeb9], [LogExecuting 4, LogOldDateMoreRecent])"
  using runUpdate_seen_date [OF scrape4_netFeb, of "[draw29, drawFeb5, drawFeb9]"]
  by (simp add: oldDateOf_before4 logHead_def)

lemma run5_netFeb:
  "runUpdate False netFeb [draw29, drawFeb5, drawFeb9] 5 =
     (Some (FailedToFetchCSV ''timeout''), [draw29, drawFeb5, drawFeb9], [LogExecuting 5])"
  by code_simp

lemma run3_single_netFeb:
  "runUpdate False netFeb [draw29] 3 =
     (Some (FailedToFetchPage ''timeout''), [draw29], [LogExecuting 3])"
  by code_simp

lemma Atoi_3: "Atoi ''3'' = Some 3"
  by code_simp

lemma main_all_netFeb:
  "main ''euromillions.db'' ''all'' False (sameNet netFeb) [draw29] =
     (0, [draw29, drawFeb5, drawFeb9],
      [LogExecuting 1, LogNewDate ''2024-02-05'',
       LogNumbers [''4'', ''11'', ''20'', ''33'', ''48'', ''2'', ''9''], LogInserted,
       LogExecuting 2, LogNewDate ''2024-02-09'',
       LogNumbers [''6'', ''13'', ''27'', ''30'', ''45'', ''1'', ''12''], LogInserted,
       LogExecuting 3, LogErrorProcessingSite 3 (FailedToFetchPage ''timeout''),
       LogExecuting 4, LogOldDateMoreRecent,
       LogExecuting 5, LogErrorProcessingSite 5 (FailedToFetchCSV ''timeout'')])"
  by (simp add: main_def sameNet_def run1_netFeb run2_netFeb run3_netFeb run4_netFeb
      run5_netFeb)

lemma scrape1_netOnlyFeb5:
  "scrape False netOnlyFeb5 1 =
     ([], Inr (''2024-02-05'', [''4'', ''11'', ''20'', ''33'', ''48'', ''2'', ''9'']))"
  by code_simp

lemma scrape4_netOnlyFeb5:
  "scrape False netOnlyFeb5 4 =
     ([], Inr (''2024-02-05'', [''4'', ''11'', ''20'', ''33'', ''48'', ''2'', ''9'']))"
  by code_simp

lemma run2_netOnlyFeb5:
  "runUpdate False netOnlyFeb5 [draw29, drawFeb5] 2 =
     (Some (FailedToFetchPage ''timeout''), [draw29, drawFeb5], [LogExecuting 2])"
  by code_simp

lemma run3_netOnlyFeb5:
  "runUpdate False netOnlyFeb5 [draw29, drawFeb5] 3 =
     (Some (FailedToFetchPage ''timeout''), [draw29, drawFeb5], [LogExecuting 3])"
  by code_simp

lemma run5_netOnlyFeb5:
  "runUpdate False netOnlyFeb5 [draw29, drawFeb5] 5 =
     (Some (FailedToFetchCSV ''timeout''), [draw29, drawFeb5], [LogExecuting 5])"
  by code_simp

lemma oldDateOf_draw29_Feb5: "oldDateOf [draw29, drawFeb5] = ''2024-02-05''"
  by code_simp

lemma rowsFor_Feb5_two: "rowsFor ''2024-02-05'' [draw29, drawFeb5] = [drawFeb5]"
  by code_simp

lemma rowsFor_Feb5_three: "rowsFor ''2024-02-05'' [draw29, drawFeb5, drawFeb9] = [drawFeb5]"
  by code_simp

section \<open>The claims\<close>

subsection \<open>C1: the freshness decision\<close>

text \<open>
  C1, as stated, fails: an attempt that reaches the date comparison with a date strictly
  greater than the latest stored date does not always append the record. Site 1 serves a
  page with the draw of 22.01.2024 and two numbers, the store's latest date is
  2024-01-15: the extracted date is greater, and \<^verbatim>\<open>runUpdate\<close> returns the error
  "invalid number of results for insertion. Expected 7, got: 2" and leaves the store as
  it was.
\<close>

theorem C1_counterexample:
  "scrape False (serving pageTwoNumbers) 1 = ([], Inr (''2024-01-22'', [''3'', ''17'']))
   \<and> oldDateOf [draw15] < ''2024-01-22''
   \<and> runUpdate False (serving pageTwoNumbers) [draw15] 1 =
       (Some (InvalidNumberOfResults 2), [draw15],
        [LogExecuting 1, LogNewDate ''2024-01-22'', LogNumbers [''3'', ''17'']])"
  using runUpdate_count [OF scrape_pageTwoNumbers, of "[draw15]"]
  by (simp add: scrape_pageTwoNumbers oldDateOf_draw15 date_15_lt_22 logHead_def)

text \<open>
  C1, amended: for every attempt whose extraction succeeds (it reaches the date
  comparison), the decision is made by comparing the extracted date with the latest
  stored date as strings. Equal: the attempt logs that the date is the same and returns
  success without writing (SkipSame). Strictly greater and exactly seven tokens: one
  row is appended to the store, with the extracted date, the first five tokens in
  their order as the five number columns and the last two in their order as the two
  star columns. Strictly greater and another number of tokens: the
  attempt returns the count error and writes nothing. Strictly smaller: the attempt logs
  that the old date is more recent and returns success without writing (SkipStale).
\<close>

theorem C1_freshness_decision:
  assumes "scrape v net site = (lg, Inr (newDate, numbers))"
  shows "(newDate = oldDateOf db \<longrightarrow>
            runUpdate v net db site =
              (None, db, logHead v db site @ lg @ [LogSameDate newDate]))
       \<and> (oldDateOf db < newDate \<and> length numbers = 7 \<longrightarrow>
            runUpdate v net db site =
              (None,
               db @ [\<lparr>date = newDate,
                      number_1 = numbers ! 0, number_2 = numbers ! 1, number_3 = numbers ! 2,
                      number_4 = numbers ! 3, number_5 = numbers ! 4,
                      star_1 = numbers ! 5, star_2 = numbers ! 6\<rparr>],
               logHead v db site @ lg @ [LogNewDate newDate, LogNumbers numbers, LogInserted]))
       \<and> (oldDateOf db < newDate \<and> length numbers \<noteq> 7 \<longrightarrow>
            runUpdate v net db site =
              (Some (InvalidNumberOfResults (length numbers)), db,
               logHead v db site @ lg @ [LogNewDate newDate, LogNumbers numbers]))
       \<and> (newDate < oldDateOf db \<longrightarrow>
            runUpdate v net db site =
              (None, db, logHead v db site @ lg @ [LogOldDateMoreRecent]))"
  using runUpdate_same [OF assms] runUpdate_fresh [OF assms] runUpdate_count [OF assms]
    runUpdate_stale [OF assms]
  unfolding insertedRow_def
  by blast

text \<open>
  Witness for C1: the CSV fixture against a store whose latest date is 2024-01-15 is
  appended as the row of 2024-01-22 with the numbers 3, 17, 22, 41, 49 and the stars 5,
  11, and against the store so extended it is SkipSame.
\<close>

theorem C1_freshness_decision_witness:
  "scrape False (serving csvFixture) 5 =
     ([], Inr (''2024-01-22'', [''3'', ''17'', ''22'', ''41'', ''49'', ''5'', ''11'']))
   \<and> oldDateOf [draw15] < ''2024-01-22''
   \<and> runUpdate False (serving csvFixture) [draw15] 5 =
       (None,
        [draw15,
         \<lparr>date = ''2024-01-22'',
             number_1 = ''3'', number_2 = ''17'', number_3 = ''22'', number_4 = ''41'',
             number_5 = ''49'', star_1 = ''5'', star_2 = ''11''\<rparr>],
        [LogExecuting 5, LogNewDate ''2024-01-22'',
         LogNumbers [''3'', ''17'', ''22'', ''41'', ''49'', ''5'', ''11''], LogInserted])
   \<and> runUpdate False (serving csvFixture) [draw15, draw22] 5 =
       (None, [draw15, draw22], [LogExecuting 5, LogSameDate ''2024-01-22''])"
  using C1_freshness_decision [OF scrape_csvFixture, of "[draw15]"]
    C1_freshness_decision [OF scrape_csvFixture, of "[draw15, draw22]"]
  by (simp add: scrape_csvFixture oldDateOf_draw15 oldDateOf_draw15_22 date_15_lt_22
      logHead_def)

subsection \<open>C2: idempotence\<close>

text \<open>
  C2, as stated, fails for a source that lags behind the store. The CSV fixture carries
  the draw of 2024-01-22 and the store holds 2024-01-29 only: both runs log that the old
  date is more recent (SkipStale, not SkipSame), and the store has no row for
  2024-01-22 afterwards.
\<close>

theorem C2_counterexample:
  "scrape False (serving csvFixture) 5 =
     ([], Inr (''2024-01-22'', [''3'', ''17'', ''22'', ''41'', ''49'', ''5'', ''11'']))
   \<and> runUpdate False (serving csvFixture) [draw29] 5 =
       (None, [draw29], [LogExecuting 5, LogOldDateMoreRecent])
   \<and> runUpdate False (serving csvFixture)
        (fst (snd (runUpdate False (serving csvFixture) [draw29] 5))) 5 =
       (None, [draw29], [LogExecuting 5, LogOldDateMoreRecent])
   \<and> length (rowsFor ''2024-01-22'' [draw29]) = 0"
  by (simp add: scrape_csvFixture scrape_stale_csvFixture rowsFor_22_draw29)

text \<open>
  C2, amended: for a source whose content is unchanged between two runs and whose
  extraction yields a date that is not earlier than the latest stored date (with seven
  tokens when the date is strictly later), on a store with one row for each date: after
  the first run the store has exactly one row for that date, and the second run
  re-reads the latest date, finds it equal, logs that the date is the same and returns
  success with the store unchanged (SkipSame).
\<close>

theorem C2_idempotent:
  assumes s: "scrape v net site = (lg, Inr (newDate, numbers))"
    and ge: "oldDateOf db \<le> newDate"
    and seven: "oldDateOf db < newDate \<longrightarrow> length numbers = 7"
    and uniq: "distinct (map date db)"
  shows "runUpdate v net (fst (snd (runUpdate v net db site))) site =
           (None, fst (snd (runUpdate v net db site)),
            logHead v (fst (snd (runUpdate v net db site))) site @ lg @ [LogSameDate newDate])
       \<and> length (rowsFor newDate (fst (snd (runUpdate v net db site)))) = 1"
proof (cases "newDate = oldDateOf db")
  case True
  have 1: "runUpdate v net db site = (None, db, logHead v db site @ lg @ [LogSameDate newDate])"
    using s True by (rule runUpdate_same)
  have "[] < newDate" using s by (rule scrape_date_gt_Nil)
  then have "db \<noteq> []" using True by (auto simp add: oldDateOf_Nil)
  then have "newDate \<in> date ` set db" using True oldDateOf_mem by simp
  then have "length (rowsFor newDate db) = 1" using uniq by (simp add: rowsFor_unique)
  then show ?thesis using 1 by simp
next
  case False
  then have lt: "oldDateOf db < newDate" using ge by simp
  then have len: "length numbers = 7" using seven by simp
  have 1: "runUpdate v net db site = (None, db @ [insertedRow newDate numbers],
      logHead v db site @ lg @ [LogNewDate newDate, LogNumbers numbers, LogInserted])"
    using s lt len by (rule runUpdate_fresh)
  have "newDate = oldDateOf (db @ [insertedRow newDate numbers])"
    using lt by (simp add: oldDateOf_fresh)
  from runUpdate_same [OF s this] 1 lt show ?thesis
    by (simp add: rowsFor_fresh)
qed

text \<open>
  Witness for C2: the CSV fixture run twice from a store whose only row is 2024-01-15.
\<close>

theorem C2_idempotent_witness:
  "scrape False (serving csvFixture) 5 =
     ([], Inr (''2024-01-22'', [''3'', ''17'', ''22'', ''41'', ''49'', ''5'', ''11'']))
   \<and> oldDateOf [draw15] \<le> ''2024-01-22''
   \<and> distinct (map date [draw15])
   \<and> fst (snd (runUpdate False (serving csvFixture) [draw15] 5)) = [draw15, draw22]
   \<and> runUpdate False (serving csvFixture) [draw15, draw22] 5 =
       (None, [draw15, draw22], [LogExecuting 5, LogSameDate ''2024-01-22''])
   \<and> length (rowsFor ''2024-01-22'' [draw15, draw22]) = 1"
proof -
  have ge: "oldDateOf [draw15] \<le> ''2024-01-22''"
    using date_15_lt_22 by (simp add: oldDateOf_draw15)
  have seven: "oldDateOf [draw15] < ''2024-01-22'' \<longrightarrow>
      length [''3'', ''17'', ''22'', ''41'', ''49'', ''5'', ''11''] = 7"
    by simp
  show ?thesis
    using C2_idempotent [OF scrape_csvFixture ge seven distinct_draw15] ge
    by (simp add: scrape_csvFixture runUpdate_csvFixture_draw15 logHead_def)
qed

subsection \<open>C3: the monotonic guard\<close>

text \<open>
  C3: an extracted record whose date is strictly earlier than the latest stored date is
  never persisted, whatever its numbers: \<^verbatim>\<open>runUpdate\<close> logs that the old date is more
  recent (SkipStale), returns no error, and the store is the one it started from, so no
  insert was executed.
\<close>

theorem C3_stale_never_persisted:
  assumes "scrape v net site = (lg, Inr (newDate, numbers))"
    and "newDate < oldDateOf db"
  shows "runUpdate v net db site = (None, db, logHead v db site @ lg @ [LogOldDateMoreRecent])"
  using assms by (rule runUpdate_stale)

text \<open>Witness for C3: the CSV fixture (2024-01-22) against a store that holds 2024-01-29.\<close>

theorem C3_stale_never_persisted_witness:
  "scrape False (serving csvFixture) 5 =
     ([], Inr (''2024-01-22'', [''3'', ''17'', ''22'', ''41'', ''49'', ''5'', ''11'']))
   \<and> ''2024-01-22'' < oldDateOf [draw29]
   \<and> runUpdate False (serving csvFixture) [draw29] 5 =
       (None, [draw29], [LogExecuting 5, LogOldDateMoreRecent])"
proof -
  have lt: "''2024-01-22'' < oldDateOf [draw29]"
    by (simp add: oldDateOf_draw29 date_22_lt_29)
  show ?thesis
    using C3_stale_never_persisted [OF scrape_csvFixture lt] lt
    by (simp add: scrape_csvFixture logHead_def)
qed

subsection \<open>C4: the count of the tokens\<close>

text \<open>
  C4, as stated, fails: an extraction with fewer than seven tokens is not always
  rejected. Site 1 serves a page with the draw of 22.01.2024 and two numbers, and the
  store's latest date is 2024-01-22: \<^verbatim>\<open>runUpdate\<close> logs that the date is the same and
  returns no error, because the count is only checked on the branch that inserts.
\<close>

theorem C4_counterexample:
  "scrape False (serving pageTwoNumbers) 1 = ([], Inr (''2024-01-22'', [''3'', ''17'']))
   \<and> runUpdate False (serving pageTwoNumbers) [draw15, draw22] 1 =
       (None, [draw15, draw22], [LogExecuting 1, LogSameDate ''2024-01-22''])"
  by (simp add: scrape_pageTwoNumbers runUpdate_pageTwoNumbers_same)

text \<open>
  C4, amended: a token list whose length is not seven is never inserted. When the
  extracted date is strictly greater than the latest stored date it is rejected with the
  error "invalid number of results for insertion" that cites the count; when the date is
  equal or earlier the attempt returns success and the count is not checked. Sites 3
  and 5 only ever yield seven tokens, site 4 at least seven (fewer are rejected at
  extraction), and every token of site 5 is an integer for \<^verbatim>\<open>strconv.Atoi\<close> (another
  token is rejected at extraction with its position and text).
\<close>

theorem C4_count_validation:
  assumes s: "scrape v net site = (lg, Inr (newDate, numbers))"
  shows "(site = 3 \<or> site = 5 \<longrightarrow> length numbers = 7)
       \<and> (site = 4 \<longrightarrow> 7 \<le> length numbers)
       \<and> (site = 5 \<longrightarrow> (\<forall>n \<in> set numbers. Atoi n \<noteq> None))
       \<and> (length numbers \<noteq> 7 \<longrightarrow>
            fst (snd (runUpdate v net db site)) = db
          \<and> (oldDateOf db < newDate \<longrightarrow>
               fst (runUpdate v net db site) = Some (InvalidNumberOfResults (length numbers)))
          \<and> (newDate \<le> oldDateOf db \<longrightarrow> fst (runUpdate v net db site) = None))"
proof -
  have 3: "site = 3 \<longrightarrow> length numbers = 7"
    using s site3_shape [of v net lg newDate numbers] by (auto simp add: scrape_site3)
  have 5: "site = 5 \<longrightarrow> length numbers = 7 \<and> (\<forall>n \<in> set numbers. Atoi n \<noteq> None)"
    using s site5_shape [of v net lg newDate numbers] by (auto simp add: scrape_site5)
  have 4: "site = 4 \<longrightarrow> 7 \<le> length numbers"
    using s site4_count [of v net lg newDate numbers] by (auto simp add: scrape_site4)
  have c: "length numbers \<noteq> 7 \<longrightarrow>
            fst (snd (runUpdate v net db site)) = db
          \<and> (oldDateOf db < newDate \<longrightarrow>
               fst (runUpdate v net db site) = Some (InvalidNumberOfResults (length numbers)))
          \<and> (newDate \<le> oldDateOf db \<longrightarrow> fst (runUpdate v net db site) = None)"
  proof
    assume n7: "length numbers \<noteq> 7"
    consider "newDate = oldDateOf db" | "newDate < oldDateOf db" | "oldDateOf db < newDate"
      by fastforce
    then show "fst (snd (runUpdate v net db site)) = db
          \<and> (oldDateOf db < newDate \<longrightarrow>
               fst (runUpdate v net db site) = Some (InvalidNumberOfResults (length numbers)))
          \<and> (newDate \<le> oldDateOf db \<longrightarrow> fst (runUpdate v net db site) = None)"
    proof cases
      case 1 then show ?thesis using runUpdate_same [OF s] by simp
    next
      case 2 then show ?thesis using runUpdate_stale [OF s] by simp
    next
      case 3 then show ?thesis using runUpdate_count [OF s 3 n7] by simp
    qed
  qed
  from 3 4 5 c show ?thesis by blast
qed

text \<open>
  Witness for C4: the page with two numbers against a store whose latest date is
  2024-01-15 is rejected with the count 2, and the store is unchanged.
\<close>

theorem C4_count_validation_witness:
  "scrape False (serving pageTwoNumbers) 1 = ([], Inr (''2024-01-22'', [''3'', ''17'']))
   \<and> length [''3'', ''17''] \<noteq> (7 :: nat)
   \<and> oldDateOf [draw15] < ''2024-01-22''
   \<and> fst (snd (runUpdate False (serving pageTwoNumbers) [draw15] 1)) = [draw15]
   \<and> fst (runUpdate False (serving pageTwoNumbers) [draw15] 1) = Some (InvalidNumberOfResults 2)"
  using C4_count_validation [OF scrape_pageTwoNumbers, of "[draw15]"]
  by (simp add: scrape_pageTwoNumbers oldDateOf_draw15 date_15_lt_22)

subsection \<open>C5: the round trip\<close>

text \<open>
  C5, as stated, fails for a record with a token outside the 64-bit integers. Site 1
  serves a page whose first number is 9223372036854775808 (the pattern \<^verbatim>\<open>>(\d+)<\<close>
  takes any run of digits); the updater stores the record, and the exact-date lookup
  of the read service answers 500, because \<^verbatim>\<open>Scan\<close> into an \<^verbatim>\<open>int\<close> fails.
\<close>

theorem C5_counterexample:
  "runUpdate False (serving pageHugeNumber) [draw15] 1 =
     (None, [draw15, drawHuge],
      [LogExecuting 1, LogNewDate ''2024-01-22'',
       LogNumbers [''9223372036854775808'', ''17'', ''22'', ''41'', ''49'', ''5'', ''11''],
       LogInserted])
   \<and> dateHandler [draw15, drawHuge] ''GET'' ''/results/date/2024-01-22'' ''json'' =
       HttpError 500 ''Error querying database''"
  by (simp add: runUpdate_pageHugeNumber dateHandler_drawHuge)

text \<open>
  C5, amended: for every record persisted by the updater whose seven tokens are 64-bit
  integers for \<^verbatim>\<open>strconv\<close> (which is always so for sites 3 and 5), the exact-date
  lookup of the read service for the record's date yields the same canonical date, the
  values of the first five tokens in their order as the numbers and the values of the
  last two tokens in their order as the stars.
\<close>

theorem C5_round_trip:
  assumes s: "scrape v net site = (lg, Inr (newDate, numbers))"
    and lt: "oldDateOf db < newDate"
    and len: "length numbers = 7"
  shows "(site = 3 \<or> site = 5 \<longrightarrow> (\<exists>vs. map Atoi numbers = map Some vs))
       \<and> (map Atoi numbers = map Some values \<longrightarrow>
            runUpdate v net db site =
              (None, db @ [insertedRow newDate numbers],
               logHead v db site @ lg @ [LogNewDate newDate, LogNumbers numbers, LogInserted])
          \<and> dateHandler (db @ [insertedRow newDate numbers]) ''GET''
               (''/results/date/'' @ newDate) format =
              sendResponse format
                [\<lparr>Date = newDate, Numbers = take 5 values, Stars = drop 5 values\<rparr>])"
proof -
  obtain t where t: "validDate t" "newDate = Format t" using scrape_date [OF s] by blast
  have 3: "site = 3 \<longrightarrow> (\<exists>vs. map Atoi numbers = map Some vs)"
  proof
    assume "site = 3"
    then have "list_all shortNum numbers"
      using s site3_shape [of v net lg newDate numbers] by (simp add: scrape_site3)
    then have "\<forall>n \<in> set numbers. Atoi n \<noteq> None" by (auto simp add: list_all_iff Atoi_shortNum)
    then show "\<exists>vs. map Atoi numbers = map Some vs" by (rule all_Atoi_values)
  qed
  have 5: "site = 5 \<longrightarrow> (\<exists>vs. map Atoi numbers = map Some vs)"
  proof
    assume "site = 5"
    then have "\<forall>n \<in> set numbers. Atoi n \<noteq> None"
      using s site5_shape [of v net lg newDate numbers] by (simp add: scrape_site5)
    then show "\<exists>vs. map Atoi numbers = map Some vs" by (rule all_Atoi_values)
  qed
  have r: "map Atoi numbers = map Some values \<longrightarrow>
      dateHandler (db @ [insertedRow newDate numbers]) ''GET''
               (''/results/date/'' @ newDate) format =
              sendResponse format
                [\<lparr>Date = newDate, Numbers = take 5 values, Stars = drop 5 values\<rparr>]"
  proof
    assume num: "map Atoi numbers = map Some values"
    have q: "queryByDate (db @ [insertedRow newDate numbers]) (Format t)
        = Some (insertedRow newDate numbers)"
      using lt t(2) queryByDate_fresh by simp
    have "scanRow (insertedRow newDate numbers)
        = Some \<lparr>Date = newDate, Numbers = take 5 values, Stars = drop 5 values\<rparr>"
      using len num by (rule scanRow_insertedRow)
    from dateHandler_found [OF t(1) q this] t(2)
    show "dateHandler (db @ [insertedRow newDate numbers]) ''GET''
               (''/results/date/'' @ newDate) format =
              sendResponse format
                [\<lparr>Date = newDate, Numbers = take 5 values, Stars = drop 5 values\<rparr>]"
      by simp
  qed
  from 3 5 r runUpdate_fresh [OF s lt len] show ?thesis by blast
qed

text \<open>
  Witness for C5: the CSV fixture stored after 2024-01-15 and read back by its date.
\<close>

theorem C5_round_trip_witness:
  "scrape False (serving csvFixture) 5 =
     ([], Inr (''2024-01-22'', [''3'', ''17'', ''22'', ''41'', ''49'', ''5'', ''11'']))
   \<and> oldDateOf [draw15] < ''2024-01-22''
   \<and> map Atoi [''3'', ''17'', ''22'', ''41'', ''49'', ''5'', ''11'']
       = map Some [3, 17, 22, 41, 49, 5, 11]
   \<and> fst (snd (runUpdate False (serving csvFixture) [draw15] 5)) = [draw15, draw22]
   \<and> dateHandler [draw15, draw22] ''GET'' ''/results/date/2024-01-22'' ''json'' =
       Sent ''application/json''
         (JSONResult \<lparr>Date = ''2024-01-22'', Numbers = [3, 17, 22, 41, 49], Stars = [5, 11]\<rparr>)"
proof -
  have lt: "oldDateOf [draw15] < ''2024-01-22''"
    by (simp add: oldDateOf_draw15 date_15_lt_22)
  have len: "length [''3'', ''17'', ''22'', ''41'', ''49'', ''5'', ''11''] = 7" by simp
  show ?thesis
    using C5_round_trip [OF scrape_csvFixture lt len, of "[3, 17, 22, 41, 49, 5, 11]" "''json''"]
      lt Atoi_fixture_numbers
    by (simp add: scrape_csvFixture insertedRow_draw22 sendResponse_def)
qed

subsection \<open>C6: the CSV source\<close>

text \<open>
  C6: for the CSV payload with the header row
  \<^verbatim>\<open>DrawDate,Ball1,Ball2,Ball3,Ball4,Ball5,Star1,Star2\<close> and the data row
  \<^verbatim>\<open>22-Jan-2024,3,17,22,41,49,5,11\<close>, the first read gives the header, which is
  dropped, the second read gives the data row; its column 0 parses with the layout
  \<^verbatim>\<open>02-Jan-2006\<close> and is formatted as 2024-01-22, its columns 1 to 7 are the
  tokens, which are the integers 3, 17, 22, 41, 49, 5, 11. Stored after 2024-01-15
  (scenario A) the row has the first five in the number columns and the last two in the
  star columns, and the read service scans it as numbers 3, 17, 22, 41, 49 and stars 5,
  11. The same holds for the payload with CRLF line ends.
\<close>

theorem C6_csv_extraction:
  "csv_Read (NewReader csvFixture) =
     Inr ([''DrawDate'', ''Ball1'', ''Ball2'', ''Ball3'', ''Ball4'', ''Ball5'', ''Star1'', ''Star2''],
          \<lparr>input = ''22-Jan-2024,3,17,22,41,49,5,11'' @ [CHR 0x0A], FieldsPerRecord = 8\<rparr>)
   \<and> csv_Read \<lparr>input = ''22-Jan-2024,3,17,22,41,49,5,11'' @ [CHR 0x0A], FieldsPerRecord = 8\<rparr> =
       Inr ([''22-Jan-2024'', ''3'', ''17'', ''22'', ''41'', ''49'', ''5'', ''11''],
            \<lparr>input = [], FieldsPerRecord = 8\<rparr>)
   \<and> parseDMonY ''22-Jan-2024'' = Some (2024, 1, 22)
   \<and> Format (2024, 1, 22) = ''2024-01-22''
   \<and> scrape False (serving csvFixture) 5 =
       ([], Inr (''2024-01-22'', [''3'', ''17'', ''22'', ''41'', ''49'', ''5'', ''11'']))
   \<and> scrape False (serving csvFixtureCRLF) 5 =
       ([], Inr (''2024-01-22'', [''3'', ''17'', ''22'', ''41'', ''49'', ''5'', ''11'']))
   \<and> map Atoi [''3'', ''17'', ''22'', ''41'', ''49'', ''5'', ''11'']
       = map Some [3, 17, 22, 41, 49, 5, 11]
   \<and> runUpdate False (serving csvFixture) [draw15] 5 =
       (None,
        [draw15,
         \<lparr>date = ''2024-01-22'',
             number_1 = ''3'', number_2 = ''17'', number_3 = ''22'', number_4 = ''41'',
             number_5 = ''49'', star_1 = ''5'', star_2 = ''11''\<rparr>],
        [LogExecuting 5, LogNewDate ''2024-01-22'',
         LogNumbers [''3'', ''17'', ''22'', ''41'', ''49'', ''5'', ''11''], LogInserted])
   \<and> scanRow \<lparr>date = ''2024-01-22'',
               number_1 = ''3'', number_2 = ''17'', number_3 = ''22'', number_4 = ''41'',
               number_5 = ''49'', star_1 = ''5'', star_2 = ''11''\<rparr> =
       Some \<lparr>Date = ''2024-01-22'', Numbers = [3, 17, 22, 41, 49], Stars = [5, 11]\<rparr>"
  using csv_header_csvFixture csv_row_csvFixture parseDMonY_22_Jan Format_22_Jan
    scrape_csvFixture scrape_csvFixtureCRLF Atoi_fixture_numbers runUpdate_csvFixture_draw15
    scanRow_draw22
  unfolding draw22_def
  by blast

subsection \<open>C7: the cursor is read again by every attempt\<close>

text \<open>
  C7, as stated, fails: a later source that extracts the date source 1 has just inserted
  does not always find that date as the latest one. In the run over all sites below,
  site 1 inserts the draw of 2024-02-05, site 2 then inserts the draw of 2024-02-09,
  and site 4 extracts 2024-02-05 again from the page site 1 read: the latest stored date
  is then 2024-02-09, and site 4 logs that the old date is more recent (SkipStale), not
  that the date is the same.
\<close>

theorem C7_counterexample:
  "scrape False netFeb 1 =
     ([], Inr (''2024-02-05'', [''4'', ''11'', ''20'', ''33'', ''48'', ''2'', ''9'']))
   \<and> runUpdate False netFeb [draw29] 1 =
       (None, [draw29, drawFeb5],
        [LogExecuting 1, LogNewDate ''2024-02-05'',
         LogNumbers [''4'', ''11'', ''20'', ''33'', ''48'', ''2'', ''9''], LogInserted])
   \<and> scrape False netFeb 4 =
       ([], Inr (''2024-02-05'', [''4'', ''11'', ''20'', ''33'', ''48'', ''2'', ''9'']))
   \<and> oldDateOf [draw29, drawFeb5, drawFeb9] = ''2024-02-09''
   \<and> main ''euromillions.db'' ''all'' False (sameNet netFeb) [draw29] =
       (0, [draw29, drawFeb5, drawFeb9],
        [LogExecuting 1, LogNewDate ''2024-02-05'',
         LogNumbers [''4'', ''11'', ''20'', ''33'', ''48'', ''2'', ''9''], LogInserted,
         LogExecuting 2, LogNewDate ''2024-02-09'',
         LogNumbers [''6'', ''13'', ''27'', ''30'', ''45'', ''1'', ''12''], LogInserted,
         LogExecuting 3, LogErrorProcessingSite 3 (FailedToFetchPage ''timeout''),
         LogExecuting 4, LogOldDateMoreRecent,
         LogExecuting 5, LogErrorProcessingSite 5 (FailedToFetchCSV ''timeout'')])"
  using scrape1_netFeb run1_netFeb scrape4_netFeb oldDateOf_before4 main_all_netFeb
  by blast

text \<open>
  C7, amended: every attempt reads the latest date of the store as the attempts before
  it left it. In a run over all sites in which site 1 inserts a draw for the date
  \<open>D\<close> and site 4 extracts the same date, the store at the start of the attempt on
  site 4 holds exactly one row for \<open>D\<close>, the row of site 1, and its latest date is
  \<open>D\<close> or later; site 4 inserts nothing and returns success: it logs that the date is
  the same (SkipSame) when the latest date is still \<open>D\<close>, which is so when sites 2
  and 3 inserted nothing, and that the old date is more recent (SkipStale) otherwise.
\<close>

theorem C7_cursor_reread:
  assumes p: "databasePath \<noteq> []"
    and s1: "scrape v (nets 1) 1 = (lg1, Inr (D, ns1))"
    and lt: "oldDateOf db < D"
    and len: "length ns1 = 7"
    and s4: "scrape v (nets 4) 4 = (lg4, Inr (D, ns4))"
  shows "(let row1 = \<lparr>date = D,
                      number_1 = ns1 ! 0, number_2 = ns1 ! 1, number_3 = ns1 ! 2,
                      number_4 = ns1 ! 3, number_5 = ns1 ! 4,
                      star_1 = ns1 ! 5, star_2 = ns1 ! 6\<rparr>;
              r2 = runUpdate v (nets 2) (db @ [row1]) 2;
              r3 = runUpdate v (nets 3) (storeOf r2) 3;
              r5 = runUpdate v (nets 5) (storeOf r3) 5;
              line4 = (if oldDateOf (storeOf r3) = D then LogSameDate D
                       else LogOldDateMoreRecent)
          in rowsFor D (storeOf r3) = [row1]
           \<and> D \<le> oldDateOf (storeOf r3)
           \<and> (storeOf r3 = db @ [row1] \<longrightarrow> line4 = LogSameDate D)
           \<and> runUpdate v (nets 4) (storeOf r3) 4 =
               (None, storeOf r3, logHead v (storeOf r3) 4 @ lg4 @ [line4])
           \<and> main databasePath ''all'' v nets db =
               (0, storeOf r5,
                logHead v db 1 @ lg1 @ [LogNewDate D, LogNumbers ns1, LogInserted]
                @ logOf r2 @ (case errOf r2 of None \<Rightarrow> [] | Some e \<Rightarrow> [LogErrorProcessingSite 2 e])
                @ logOf r3 @ (case errOf r3 of None \<Rightarrow> [] | Some e \<Rightarrow> [LogErrorProcessingSite 3 e])
                @ logHead v (storeOf r3) 4 @ lg4 @ [line4]
                @ logOf r5 @ (case errOf r5 of None \<Rightarrow> [] | Some e \<Rightarrow> [LogErrorProcessingSite 5 e])))"
proof -
  define row1 where "row1 = insertedRow D ns1"
  define r2 where "r2 = runUpdate v (nets 2) (db @ [row1]) 2"
  define r3 where "r3 = runUpdate v (nets 3) (storeOf r2) 3"
  define r5 where "r5 = runUpdate v (nets 5) (storeOf r3) 5"
  define line4 where
    "line4 = (if oldDateOf (storeOf r3) = D then LogSameDate D else LogOldDateMoreRecent)"
  have r1: "runUpdate v (nets 1) db 1 =
      (None, db @ [row1], logHead v db 1 @ lg1 @ [LogNewDate D, LogNumbers ns1, LogInserted])"
    unfolding row1_def using s1 lt len by (rule runUpdate_fresh)
  have o1: "oldDateOf (db @ [row1]) = D" unfolding row1_def using lt by (rule oldDateOf_fresh)
  have f1: "rowsFor D (db @ [row1]) = [row1]" unfolding row1_def using lt by (rule rowsFor_fresh)
  have k2: "rowsFor D (storeOf r2) = [row1] \<and> D \<le> oldDateOf (storeOf r2)"
    unfolding r2_def using runUpdate_keeps_rows [of D "db @ [row1]" v "nets 2" 2] o1 f1 by simp
  have k3: "rowsFor D (storeOf r3) = [row1] \<and> D \<le> oldDateOf (storeOf r3)"
    unfolding r3_def using runUpdate_keeps_rows [of D "storeOf r2" v "nets 3" 3] k2 by simp
  have r4: "runUpdate v (nets 4) (storeOf r3) 4 =
      (None, storeOf r3, logHead v (storeOf r3) 4 @ lg4 @ [line4])"
    unfolding line4_def using s4 k3 by (simp add: runUpdate_seen_date)
  have same: "storeOf r3 = db @ [row1] \<longrightarrow> line4 = LogSameDate D"
    unfolding line4_def using o1 by simp
  have m: "main databasePath ''all'' v nets db =
               (0, storeOf r5,
                logHead v db 1 @ lg1 @ [LogNewDate D, LogNumbers ns1, LogInserted]
                @ logOf r2 @ (case errOf r2 of None \<Rightarrow> [] | Some e \<Rightarrow> [LogErrorProcessingSite 2 e])
                @ logOf r3 @ (case errOf r3 of None \<Rightarrow> [] | Some e \<Rightarrow> [LogErrorProcessingSite 3 e])
                @ logHead v (storeOf r3) 4 @ lg4 @ [line4]
                @ logOf r5 @ (case errOf r5 of None \<Rightarrow> [] | Some e \<Rightarrow> [LogErrorProcessingSite 5 e]))"
    using main_all_chain [OF p, of v nets db] r1 r4
    by (simp add: Let_def r2_def [symmetric] r3_def [symmetric] r5_def [symmetric]
        storeOf_def [of "(None, db @ [row1], logHead v db 1 @ lg1 @ [LogNewDate D, LogNumbers ns1, LogInserted])"]
        storeOf_def [of "(None, storeOf r3, logHead v (storeOf r3) 4 @ lg4 @ [line4])"]
        errOf_def [of "(None, db @ [row1], logHead v db 1 @ lg1 @ [LogNewDate D, LogNumbers ns1, LogInserted])"]
        errOf_def [of "(None, storeOf r3, logHead v (storeOf r3) 4 @ lg4 @ [line4])"]
        logOf_def [of "(None, db @ [row1], logHead v db 1 @ lg1 @ [LogNewDate D, LogNumbers ns1, LogInserted])"]
        logOf_def [of "(None, storeOf r3, logHead v (storeOf r3) 4 @ lg4 @ [line4])"])
  from k3 same r4 m show ?thesis
    unfolding Let_def row1_def [unfolded insertedRow_def, symmetric]
      r2_def [symmetric] r3_def [symmetric] r5_def [symmetric] line4_def [symmetric]
    by blast
qed

text \<open>
  Witness for C7 (scenario C): only euromilhoes.com answers; site 1 inserts the draw of
  2024-02-05 and site 4 resolves to SkipSame.
\<close>

theorem C7_cursor_reread_witness:
  "scrape False (sameNet netOnlyFeb5 1) 1 =
     ([], Inr (''2024-02-05'', [''4'', ''11'', ''20'', ''33'', ''48'', ''2'', ''9'']))
   \<and> oldDateOf [draw29] < ''2024-02-05''
   \<and> scrape False (sameNet netOnlyFeb5 4) 4 =
       ([], Inr (''2024-02-05'', [''4'', ''11'', ''20'', ''33'', ''48'', ''2'', ''9'']))
   \<and> rowsFor ''2024-02-05'' [draw29, drawFeb5] = [drawFeb5]
   \<and> runUpdate False netOnlyFeb5 [draw29, drawFeb5] 4 =
       (None, [draw29, drawFeb5], [LogExecuting 4, LogSameDate ''2024-02-05''])
   \<and> main ''euromillions.db'' ''all'' False (sameNet netOnlyFeb5) [draw29] =
       (0, [draw29, drawFeb5],
        [LogExecuting 1, LogNewDate ''2024-02-05'',
         LogNumbers [''4'', ''11'', ''20'', ''33'', ''48'', ''2'', ''9''], LogInserted,
         LogExecuting 2, LogErrorProcessingSite 2 (FailedToFetchPage ''timeout''),
         LogExecuting 3, LogErrorProcessingSite 3 (FailedToFetchPage ''timeout''),
         LogExecuting 4, LogSameDate ''2024-02-05'',
         LogExecuting 5, LogErrorProcessingSite 5 (FailedToFetchCSV ''timeout'')])"
proof -
  have p: "''euromillions.db'' \<noteq> []" by simp
  have s1: "scrape False (sameNet netOnlyFeb5 1) 1 =
     ([], Inr (''2024-02-05'', [''4'', ''11'', ''20'', ''33'', ''48'', ''2'', ''9'']))"
    by (simp add: sameNet_def scrape1_netOnlyFeb5)
  have s4: "scrape False (sameNet netOnlyFeb5 4) 4 =
     ([], Inr (''2024-02-05'', [''4'', ''11'', ''20'', ''33'', ''48'', ''2'', ''9'']))"
    by (simp add: sameNet_def scrape4_netOnlyFeb5)
  have len: "length [''4'', ''11'', ''20'', ''33'', ''48'', ''2'', ''9''] = 7" by simp
  have row: "\<lparr>date = ''2024-02-05'', number_1 = ''4'', number_2 = ''11'', number_3 = ''20'',
      number_4 = ''33'', number_5 = ''48'', star_1 = ''2'', star_2 = ''9''\<rparr> = drawFeb5"
    by (simp add: drawFeb5_def)
  have "main ''euromillions.db'' ''all'' False (sameNet netOnlyFeb5) [draw29] =
       (0, [draw29, drawFeb5],
        [LogExecuting 1, LogNewDate ''2024-02-05'',
         LogNumbers [''4'', ''11'', ''20'', ''33'', ''48'', ''2'', ''9''], LogInserted,
         LogExecuting 2, LogErrorProcessingSite 2 (FailedToFetchPage ''timeout''),
         LogExecuting 3, LogErrorProcessingSite 3 (FailedToFetchPage ''timeout''),
         LogExecuting 4, LogSameDate ''2024-02-05'',
         LogExecuting 5, LogErrorProcessingSite 5 (FailedToFetchCSV ''timeout'')])
     \<and> rowsFor ''2024-02-05'' [draw29, drawFeb5] = [drawFeb5]
     \<and> runUpdate False netOnlyFeb5 [draw29, drawFeb5] 4 =
       (None, [draw29, drawFeb5], [LogExecuting 4, LogSameDate ''2024-02-05''])"
    using C7_cursor_reread [OF p s1 date_29_lt_Feb5 len s4]
    by (simp add: Let_def row sameNet_def [of netOnlyFeb5 2] sameNet_def [of netOnlyFeb5 3]
        sameNet_def [of netOnlyFeb5 4] sameNet_def [of netOnlyFeb5 5]
        run2_netOnlyFeb5 run3_netOnlyFeb5 run5_netOnlyFeb5
        storeOf_def errOf_def logOf_def logHead_def oldDateOf_draw29_Feb5)
  with s1 s4 date_29_lt_Feb5 show ?thesis by blast
qed

subsection \<open>C8: an error stays with its source\<close>

text \<open>
  C8: with the site selection \<^verbatim>\<open>all\<close> the five sites are attempted in the order 1, 2,
  3, 4, 5, each on the store the attempt before it left, whatever errors the attempts
  return; an error is logged with the number of its site, and the run ends with status
  0. An attempt that returns an error leaves the store as it found it. With a single
  site selected, an error of the attempt is logged by \<^verbatim>\<open>log.Fatal\<close> and the run ends
  with status 1.
\<close>

theorem C8_error_isolation:
  "(databasePath \<noteq> [] \<longrightarrow>
     (let r1 = runUpdate v (nets 1) db 1;
          r2 = runUpdate v (nets 2) (storeOf r1) 2;
          r3 = runUpdate v (nets 3) (storeOf r2) 3;
          r4 = runUpdate v (nets 4) (storeOf r3) 4;
          r5 = runUpdate v (nets 5) (storeOf r4) 5
      in main databasePath ''all'' v nets db =
           (0, storeOf r5,
            logOf r1 @ (case errOf r1 of None \<Rightarrow> [] | Some e \<Rightarrow> [LogErrorProcessingSite 1 e])
            @ logOf r2 @ (case errOf r2 of None \<Rightarrow> [] | Some e \<Rightarrow> [LogErrorProcessingSite 2 e])
            @ logOf r3 @ (case errOf r3 of None \<Rightarrow> [] | Some e \<Rightarrow> [LogErrorProcessingSite 3 e])
            @ logOf r4 @ (case errOf r4 of None \<Rightarrow> [] | Some e \<Rightarrow> [LogErrorProcessingSite 4 e])
            @ logOf r5 @ (case errOf r5 of None \<Rightarrow> [] | Some e \<Rightarrow> [LogErrorProcessingSite 5 e]))))
   \<and> (errOf (runUpdate v net db' site) = Some err \<longrightarrow> storeOf (runUpdate v net db' site) = db')
   \<and> (databasePath \<noteq> [] \<and> siteIDStr \<noteq> ''all'' \<and> Atoi siteIDStr = Some sid
        \<and> errOf (runUpdate v (nets sid) db sid) = Some err' \<longrightarrow>
        main databasePath siteIDStr v nets db =
          (1, db, logOf (runUpdate v (nets sid) db sid) @ [LogFatal err']))"
  using main_all_chain [of databasePath v nets db]
    runUpdate_error_store [of v net db' site err]
    main_single_error [of databasePath siteIDStr sid v nets db err']
  by blast

text \<open>
  Witness for C8: sites 3 and 5 time out; the run over all sites goes on and ends with
  status 0, and the run on site 3 alone ends with status 1.
\<close>

theorem C8_error_isolation_witness:
  "main ''euromillions.db'' ''all'' False (sameNet netFeb) [draw29] =
     (0, [draw29, drawFeb5, drawFeb9],
      [LogExecuting 1, LogNewDate ''2024-02-05'',
       LogNumbers [''4'', ''11'', ''20'', ''33'', ''48'', ''2'', ''9''], LogInserted,
       LogExecuting 2, LogNewDate ''2024-02-09'',
       LogNumbers [''6'', ''13'', ''27'', ''30'', ''45'', ''1'', ''12''], LogInserted,
       LogExecuting 3, LogErrorProcessingSite 3 (FailedToFetchPage ''timeout''),
       LogExecuting 4, LogOldDateMoreRecent,
       LogExecuting 5, LogErrorProcessingSite 5 (FailedToFetchCSV ''timeout'')])
   \<and> errOf (runUpdate False netFeb [draw29, drawFeb5, drawFeb9] 3)
       = Some (FailedToFetchPage ''timeout'')
   \<and> storeOf (runUpdate False netFeb [draw29, drawFeb5, drawFeb9] 3)
       = [draw29, drawFeb5, drawFeb9]
   \<and> Atoi ''3'' = Some 3
   \<and> main ''euromillions.db'' ''3'' False (sameNet netFeb) [draw29] =
       (1, [draw29], [LogExecuting 3, LogFatal (FailedToFetchPage ''timeout'')])"
  using C8_error_isolation [where databasePath = "''euromillions.db''" and v = False
      and nets = "sameNet netFeb" and db = "[draw29]" and net = netFeb
      and db' = "[draw29, drawFeb5, drawFeb9]" and site = 3
      and err = "FailedToFetchPage ''timeout''" and siteIDStr = "''3''" and sid = 3
      and err' = "FailedToFetchPage ''timeout''"]
    Atoi_3
  by (simp add: sameNet_def Let_def errOf_def storeOf_def logOf_def run1_netFeb run2_netFeb
      run3_netFeb run4_netFeb run5_netFeb run3_single_netFeb)

subsection \<open>C9: the empty store\<close>

text \<open>
  C9: on a table without rows the latest-date query has no row, which is not an error,
  and the cursor is the empty string. Every date an extraction yields is greater than
  the empty string, so an extracted record with seven tokens is persisted: the store
  then holds one row with the extracted date, the first five tokens in their order as
  the five number columns and the last two in their order as the two star columns. The
  attempt is neither SkipSame nor SkipStale.
\<close>

theorem C9_empty_store:
  assumes "scrape v net site = (lg, Inr (newDate, numbers))"
    and "length numbers = 7"
  shows "queryLatestDate [] = None \<and> oldDateOf [] = [] \<and> [] < newDate
       \<and> runUpdate v net [] site =
           (None,
            [\<lparr>date = newDate,
                      number_1 = numbers ! 0, number_2 = numbers ! 1, number_3 = numbers ! 2,
                      number_4 = numbers ! 3, number_5 = numbers ! 4,
                      star_1 = numbers ! 5, star_2 = numbers ! 6\<rparr>],
            logHead v [] site @ lg @ [LogNewDate newDate, LogNumbers numbers, LogInserted])"
proof -
  have gt: "[] < newDate" using assms(1) by (rule scrape_date_gt_Nil)
  then have "oldDateOf [] < newDate" by (simp add: oldDateOf_Nil)
  from runUpdate_fresh [OF assms(1) this assms(2)] gt show ?thesis
    by (simp add: oldDateOf_Nil queryLatestDate_def insertedRow_def)
qed

text \<open>
  Witness for C9: the CSV fixture against the empty store; the store then holds the
  row of 2024-01-22 with the numbers 3, 17, 22, 41, 49 and the stars 5, 11.
\<close>

theorem C9_empty_store_witness:
  "scrape False (serving csvFixture) 5 =
     ([], Inr (''2024-01-22'', [''3'', ''17'', ''22'', ''41'', ''49'', ''5'', ''11'']))
   \<and> runUpdate False (serving csvFixture) [] 5 =
       (None,
        [\<lparr>date = ''2024-01-22'',
             number_1 = ''3'', number_2 = ''17'', number_3 = ''22'', number_4 = ''41'',
             number_5 = ''49'', star_1 = ''5'', star_2 = ''11''\<rparr>],
        [LogExecuting 5, LogNewDate ''2024-01-22'',
         LogNumbers [''3'', ''17'', ''22'', ''41'', ''49'', ''5'', ''11''], LogInserted])"
  using C9_empty_store [OF scrape_csvFixture]
  by (simp add: scrape_csvFixture logHead_def)

subsection \<open>C10: the shape of the response\<close>

text \<open>
  C10: in \<^verbatim>\<open>sendResponse\<close>, for JSON (any format other than xml and plaintext) and
  for XML, the value given to the encoder depends on the number of results: with exactly
  one result it is that result alone, with any other number it is the slice (JSON) or
  the slice inside \<^verbatim>\<open>AllResults\<close> (XML). So a GET of /results against a store with
  exactly one row, which scans as the result \<open>r\<close>, answers with the single object
  \<open>r\<close> and not with a list of one element.
\<close>

theorem C10_response_shape:
  "(format \<noteq> ''xml'' \<and> format \<noteq> ''plaintext'' \<longrightarrow>
      sendResponse format [r] = Sent ''application/json'' (JSONResult r)
    \<and> (length rs \<noteq> 1 \<longrightarrow> sendResponse format rs = Sent ''application/json'' (JSONResults rs)))
   \<and> sendResponse ''xml'' [r] = Sent ''application/xml'' (XMLResult r)
   \<and> (length rs \<noteq> 1 \<longrightarrow> sendResponse ''xml'' rs = Sent ''application/xml'' (XMLAllResults rs))
   \<and> (scanRow rw = Some r \<longrightarrow>
        (format \<noteq> ''xml'' \<and> format \<noteq> ''plaintext'' \<longrightarrow>
           resultsHandler [rw] ''GET'' format = Sent ''application/json'' (JSONResult r))
      \<and> resultsHandler [rw] ''GET'' ''xml'' = Sent ''application/xml'' (XMLResult r))"
  using sendResponse_one_json [of format r] sendResponse_many_json [of format rs]
    sendResponse_one_xml [of r] sendResponse_many_xml [of rs]
    resultsHandler_one_row [of rw r format] resultsHandler_one_row [of rw r "''xml''"]
  by auto

text \<open>
  Witness for C10: the store that holds the draw of 2024-01-15 only answers with the
  single object; two results are sent as the slice.
\<close>

theorem C10_response_shape_witness:
  "scanRow draw15 = Some \<lparr>Date = ''2024-01-15'', Numbers = [1, 2, 3, 4, 5], Stars = [6, 7]\<rparr>
   \<and> resultsHandler [draw15] ''GET'' ''json'' =
       Sent ''application/json''
         (JSONResult \<lparr>Date = ''2024-01-15'', Numbers = [1, 2, 3, 4, 5], Stars = [6, 7]\<rparr>)
   \<and> resultsHandler [draw15] ''GET'' ''xml'' =
       Sent ''application/xml''
         (XMLResult \<lparr>Date = ''2024-01-15'', Numbers = [1, 2, 3, 4, 5], Stars = [6, 7]\<rparr>)
   \<and> sendResponse ''json''
         [\<lparr>Date = ''2024-01-22'', Numbers = [3, 17, 22, 41, 49], Stars = [5, 11]\<rparr>,
          \<lparr>Date = ''2024-01-15'', Numbers = [1, 2, 3, 4, 5], Stars = [6, 7]\<rparr>] =
       Sent ''application/json''
         (JSONResults
            [\<lparr>Date = ''2024-01-22'', Numbers = [3, 17, 22, 41, 49], Stars = [5, 11]\<rparr>,
             \<lparr>Date = ''2024-01-15'', Numbers = [1, 2, 3, 4, 5], Stars = [6, 7]\<rparr>])
   \<and> resultsHandler [draw15, draw22] ''GET'' ''json'' =
       Sent ''application/json''
         (JSONResults
            [\<lparr>Date = ''2024-01-22'', Numbers = [3, 17, 22, 41, 49], Stars = [5, 11]\<rparr>,
             \<lparr>Date = ''2024-01-15'', Numbers = [1, 2, 3, 4, 5], Stars = [6, 7]\<rparr>])"
  using C10_response_shape [of "''json''"
      "\<lparr>Date = ''2024-01-15'', Numbers = [1, 2, 3, 4, 5], Stars = [6, 7]\<rparr>"
      "[\<lparr>Date = ''2024-01-22'', Numbers = [3, 17, 22, 41, 49], Stars = [5, 11]\<rparr>,
        \<lparr>Date = ''2024-01-15'', Numbers = [1, 2, 3, 4, 5], Stars = [6, 7]\<rparr>]" draw15]
    scanRow_draw15 json_not_xml resultsHandler_two_rows
  by simp

end
